theory Spec2Isabelle
  imports Complex_Main
begin

section \<open>JavaScript strings and the regular expressions of the parser\<close>

text \<open>
  A JavaScript string is a sequence of UTF-16 code units. A code unit is modelled by its
  numeric value, so that the em-dash U+2014 of \<open>detectTone\<close> and the Unicode white space
  that \<open>trim\<close> and \<open>\s\<close> accept are single characters, as they are for the source.
  \<open>js\<close> embeds an ASCII literal.
\<close>

type_synonym jschar = nat
type_synonym jsstring = "nat list"

definition js :: "string \<Rightarrow> jsstring" where
  "js s = map of_char s"

text \<open>The class \<open>\s\<close> of a regular expression; \<open>String.prototype.trim\<close> strips the same set
  (WhiteSpace and LineTerminator of ECMAScript).\<close>

definition isWhiteSpace :: "jschar \<Rightarrow> bool" where
  "isWhiteSpace c =
     (c = 9 \<or> c = 10 \<or> c = 11 \<or> c = 12 \<or> c = 13 \<or> c = 32 \<or> c = 160 \<or> c = 5760 \<or>
      (8192 \<le> c \<and> c \<le> 8202) \<or> c = 8232 \<or> c = 8233 \<or> c = 8239 \<or> c = 8287 \<or>
      c = 12288 \<or> c = 65279)"

text \<open>The characters that \<open>.\<close> does not match: LF, CR, U+2028, U+2029.\<close>

definition isLineTerminator :: "jschar \<Rightarrow> bool" where
  "isLineTerminator c = (c = 10 \<or> c = 13 \<or> c = 8232 \<or> c = 8233)"

definition isUpperAZ :: "jschar \<Rightarrow> bool" where
  "isUpperAZ c = (65 \<le> c \<and> c \<le> 90)"

text \<open>The class \<open>\w\<close>: \<open>[A-Za-z0-9_]\<close>.\<close>

definition isWordChar :: "jschar \<Rightarrow> bool" where
  "isWordChar c = ((65 \<le> c \<and> c \<le> 90) \<or> (97 \<le> c \<and> c \<le> 122) \<or> (48 \<le> c \<and> c \<le> 57) \<or> c = 95)"

text \<open>
  Canonicalisation under the flag \<open>i\<close> (without \<open>u\<close>): a character is compared by its
  upper case, and a code unit of 128 or more is never mapped below 128. Every pattern of
  this program that carries the flag is ASCII, so only the ASCII part of the mapping can
  make two characters equal; the other code units are left as they are.
\<close>

definition canonicalize :: "jschar \<Rightarrow> jschar" where
  "canonicalize c = (if 97 \<le> c \<and> c \<le> 122 then c - 32 else c)"

definition trim :: "jsstring \<Rightarrow> jsstring" where
  "trim s = rev (dropWhile isWhiteSpace (rev (dropWhile isWhiteSpace s)))"

text \<open>\<open>s.split(sep)\<close> for a separator of one character: never empty, a trailing separator
  gives a last empty piece.\<close>

fun split :: "jschar \<Rightarrow> jsstring \<Rightarrow> jsstring list" where
  "split sep [] = [[]]"
| "split sep (c # cs) =
     (if c = sep then [] # split sep cs
      else (case split sep cs of
              [] \<Rightarrow> [[c]]
            | l # ls \<Rightarrow> (c # l) # ls))"

text \<open>A pattern anchored at the start of the text: \<open>/^pat/\<close> and \<open>/^pat/i\<close>.\<close>

definition startsWith :: "jsstring \<Rightarrow> jsstring \<Rightarrow> bool" where
  "startsWith pat s = (take (length pat) s = pat)"

definition startsWith_i :: "jsstring \<Rightarrow> jsstring \<Rightarrow> bool" where
  "startsWith_i pat s = (map canonicalize (take (length pat) s) = map canonicalize pat)"

text \<open>An unanchored literal pattern: \<open>/pat/\<close> and \<open>/pat/i\<close> match when some suffix of the
  text starts with it.\<close>

fun contains :: "jsstring \<Rightarrow> jsstring \<Rightarrow> bool" where
  "contains pat [] = (pat = [])"
| "contains pat (c # cs) = (startsWith pat (c # cs) \<or> contains pat cs)"

fun contains_i :: "jsstring \<Rightarrow> jsstring \<Rightarrow> bool" where
  "contains_i pat [] = (pat = [])"
| "contains_i pat (c # cs) = (startsWith_i pat (c # cs) \<or> contains_i pat cs)"

text \<open>\<open>/^(INT\.|EXT\.)/i\<close>, the scene header.\<close>

definition isSceneHeader :: "jsstring \<Rightarrow> bool" where
  "isSceneHeader line = (startsWith_i (js ''INT.'') line \<or> startsWith_i (js ''EXT.'') line)"

text \<open>\<open>/^[A-Z][A-Z\s]{2,}$/\<close>, the character cue: a capital letter, then two or more
  characters that are capital letters or white space, up to the end of the text.\<close>

definition isCue :: "jsstring \<Rightarrow> bool" where
  "isCue line =
     (case line of
        [] \<Rightarrow> False
      | c # cs \<Rightarrow> isUpperAZ c \<and> 2 \<le> length cs \<and> list_all (\<lambda>d. isUpperAZ d \<or> isWhiteSpace d) cs)"

text \<open>
  \<open>/^(INT\.|EXT\.)\s+(.+?)\s+-\s+(DAY|NIGHT|DAWN|DUSK|CONTINUOUS)/i\<close>, by the backtracking
  order of the matcher. \<open>matchTail\<close> is \<open>\s+-\s+(DAY|...)\<close> at the start of its argument:
  each run of white space is followed by a character that is no white space, so only the
  whole run can match. \<open>matchLocation\<close> is the lazy group \<open>(.+?)\<close> followed by the tail: it
  tries the shortest location first and stops at a line terminator. \<open>matchLeading\<close> is the
  greedy \<open>\s+\<close> after the prefix: the longest run first, then shorter ones. The result is
  the three groups.
\<close>

definition timeWords :: "jsstring list" where
  "timeWords = [js ''DAY'', js ''NIGHT'', js ''DAWN'', js ''DUSK'', js ''CONTINUOUS'']"

definition matchTail :: "jsstring \<Rightarrow> jsstring option" where
  "matchTail s =
     (let s1 = dropWhile isWhiteSpace s in
      if length s1 = length s then None
      else (case s1 of
              [] \<Rightarrow> None
            | d # s2 \<Rightarrow>
                if d \<noteq> 45 then None
                else (let s3 = dropWhile isWhiteSpace s2 in
                      if length s3 = length s2 then None
                      else (case filter (\<lambda>w. startsWith_i w s3) timeWords of
                              [] \<Rightarrow> None
                            | w # _ \<Rightarrow> Some (take (length w) s3)))))"

fun matchLocation :: "jsstring \<Rightarrow> jsstring \<Rightarrow> (jsstring \<times> jsstring) option" where
  "matchLocation loc [] = None"
| "matchLocation loc (c # cs) =
     (if isLineTerminator c then None
      else (case matchTail cs of
              Some t \<Rightarrow> Some (loc @ [c], t)
            | None \<Rightarrow> matchLocation (loc @ [c]) cs))"

fun matchLeading :: "nat \<Rightarrow> jsstring \<Rightarrow> (jsstring \<times> jsstring) option" where
  "matchLeading 0 s = None"
| "matchLeading (Suc k) s =
     (case matchLocation [] (drop (Suc k) s) of
        Some r \<Rightarrow> Some r
      | None \<Rightarrow> matchLeading k s)"

definition matchHeader :: "jsstring \<Rightarrow> (jsstring \<times> jsstring \<times> jsstring) option" where
  "matchHeader line =
     (if \<not> isSceneHeader line then None
      else (let rest = drop 4 line in
            case matchLeading (length (takeWhile isWhiteSpace rest)) rest of
              None \<Rightarrow> None
            | Some (loc, t) \<Rightarrow> Some (take 4 line, loc, t)))"

text \<open>\<open>toUpperCase\<close>, applied by the source to text that matched an ASCII pattern.\<close>

definition toUpperCase :: "jsstring \<Rightarrow> jsstring" where
  "toUpperCase s = map canonicalize s"

section \<open>The parser: \<open>extractScenes\<close>\<close>

record scene =
  scene_number :: nat
  scene_type :: jsstring
  location :: jsstring
  time :: jsstring
  page_start :: nat
  page_end :: "nat option"
  content :: jsstring
  dialogue_lines :: "jsstring list"
  action_lines :: "jsstring list"
  characters_present :: "jsstring list"
  dialogue_ratio :: "rat option"

text \<open>The variables of the loop of \<open>extractScenes\<close>.\<close>

record scan =
  scenes :: "scene list"
  currentScene :: "scene option"
  sceneNumber :: nat
  pageCount :: nat

text \<open>"Save previous scene": the open scene gets its \<open>page_end\<close> and is pushed.\<close>

definition saveScene :: "scan \<Rightarrow> scene list" where
  "saveScene st =
     (case currentScene st of
        None \<Rightarrow> scenes st
      | Some cs \<Rightarrow> scenes st @ [cs\<lparr>page_end := Some (pageCount st)\<rparr>])"

definition newScene :: "nat \<Rightarrow> nat \<Rightarrow> jsstring \<Rightarrow> scene" where
  "newScene n pc line =
     (let m = matchHeader line in
      \<lparr>scene_number = n,
       scene_type = (case m of Some (ty, loc, t) \<Rightarrow> toUpperCase ty | None \<Rightarrow> js ''INT.''),
       location = (case m of Some (ty, loc, t) \<Rightarrow> trim loc | None \<Rightarrow> js ''UNKNOWN''),
       time = (case m of Some (ty, loc, t) \<Rightarrow> toUpperCase t | None \<Rightarrow> js ''DAY''),
       page_start = pc,
       page_end = None,
       content = [],
       dialogue_lines = [],
       action_lines = [],
       characters_present = [],
       dialogue_ratio = None\<rparr>)"

text \<open>\<open>Set.prototype.add\<close> on a set kept in insertion order.\<close>

definition setAdd :: "'a \<Rightarrow> 'a list \<Rightarrow> 'a list" where
  "setAdd x xs = (if x \<in> set xs then xs else xs @ [x])"

text \<open>"Add content to current scene": the body of \<open>if (currentScene)\<close>, for line \<open>i\<close>.\<close>

definition addContent :: "jsstring list \<Rightarrow> nat \<Rightarrow> jsstring \<Rightarrow> scene \<Rightarrow> scene" where
  "addContent lines i line cs =
     (let cs1 = cs\<lparr>content := content cs @ line @ [10]\<rparr>;
          cs2 = (if isCue line \<and> length line < 30
                 then cs1\<lparr>characters_present := setAdd (trim line) (characters_present cs1)\<rparr>
                 else cs1)
      in if isCue line then cs2
         else if 0 < length line \<and> 0 < i \<and> isCue (trim (lines ! (i - 1)))
              then cs2\<lparr>dialogue_lines := dialogue_lines cs2 @ [line]\<rparr>
         else if 0 < length line then cs2\<lparr>action_lines := action_lines cs2 @ [line]\<rparr>
         else cs2)"

text \<open>One iteration of \<open>for (let i = 0; i < lines.length; i++)\<close>.\<close>

definition scanLine :: "jsstring list \<Rightarrow> nat \<Rightarrow> scan \<Rightarrow> scan" where
  "scanLine lines i st =
     (let line = trim (lines ! i);
          st1 = (if isSceneHeader line
                 then st\<lparr>scenes := saveScene st,
                         sceneNumber := sceneNumber st + 1,
                         currentScene := Some (newScene (sceneNumber st + 1) (pageCount st) line)\<rparr>
                 else st);
          st2 = (case currentScene st1 of
                   None \<Rightarrow> st1
                 | Some cs \<Rightarrow> st1\<lparr>currentScene := Some (addContent lines i line cs)\<rparr>)
      in if i mod 60 = 0 then st2\<lparr>pageCount := pageCount st2 + 1\<rparr> else st2)"

definition scanInit :: scan where
  "scanInit = \<lparr>scenes = [], currentScene = None, sceneNumber = 0, pageCount = 0\<rparr>"

definition scanLines :: "jsstring list \<Rightarrow> scan" where
  "scanLines lines = fold (scanLine lines) [0..<length lines] scanInit"

text \<open>The final \<open>forEach\<close>: the set of characters becomes an array (the same list here) and
  \<open>dialogue_ratio\<close> is computed. The quotient is the exact one; the source's is its
  rounding to a double.\<close>

definition setRatio :: "scene \<Rightarrow> scene" where
  "setRatio s =
     s\<lparr>dialogue_ratio :=
          Some (of_nat (length (dialogue_lines s)) /
                of_nat (length (dialogue_lines s) + length (action_lines s) + 1))\<rparr>"

definition extractScenes :: "jsstring \<Rightarrow> scene list" where
  "extractScenes text = map setRatio (saveScene (scanLines (split 10 text)))"

section \<open>The parser: characters, dialogue, tone and beats\<close>

record character =
  name :: jsstring
  first_appearance :: nat
  scenes_in :: "nat list"
  total_lines :: nat
  dialogue_samples :: "jsstring list"

text \<open>The \<open>Map\<close> of \<open>extractCharacters\<close>, in insertion order: one entry for a name.\<close>

definition addCharacter :: "scene \<Rightarrow> jsstring \<Rightarrow> character list \<Rightarrow> character list" where
  "addCharacter sc charName characterMap =
     (let m = (if charName \<in> set (map name characterMap) then characterMap
               else characterMap @
                      [\<lparr>name = charName, first_appearance = page_start sc, scenes_in = [],
                        total_lines = 0, dialogue_samples = []\<rparr>])
      in map (\<lambda>c. if name c = charName
                    then c\<lparr>scenes_in := scenes_in c @ [scene_number sc],
                           total_lines := total_lines c + length (dialogue_lines sc)\<rparr>
                    else c) m)"

text \<open>\<open>Array.prototype.sort\<close> is stable; the comparator orders by \<open>total_lines\<close>, larger
  first.\<close>

definition extractCharacters :: "scene list \<Rightarrow> character list" where
  "extractCharacters scs =
     sort_key (\<lambda>c. - int (total_lines c))
       (fold (\<lambda>sc m. fold (addCharacter sc) (characters_present sc) m) scs [])"

text \<open>
  \<open>/!+/\<close> is \<open>contains\<close> of one character. \<open>/\byell|shout|scream\b/i\<close> has three
  alternatives: \<open>\byell\<close>, \<open>shout\<close> and \<open>scream\b\<close>. \<open>searchFrom m None text\<close> tries
  \<open>m\<close> at every position, with the character before the position.
\<close>

fun searchFrom :: "(jschar option \<Rightarrow> jsstring \<Rightarrow> bool) \<Rightarrow> jschar option \<Rightarrow> jsstring \<Rightarrow> bool" where
  "searchFrom m prev [] = m prev []"
| "searchFrom m prev (c # cs) = (m prev (c # cs) \<or> searchFrom m (Some c) cs)"

definition headOpt :: "jsstring \<Rightarrow> jschar option" where
  "headOpt s = (case s of [] \<Rightarrow> None | c # _ \<Rightarrow> Some c)"

definition isWordOpt :: "jschar option \<Rightarrow> bool" where
  "isWordOpt p = (case p of None \<Rightarrow> False | Some c \<Rightarrow> isWordChar c)"

text \<open>\<open>\b\<close> between two characters, either of which may be missing at an end of the text.\<close>

definition wordBoundary :: "jschar option \<Rightarrow> jschar option \<Rightarrow> bool" where
  "wordBoundary p q = (isWordOpt p \<noteq> isWordOpt q)"

definition intenseWordAt :: "jschar option \<Rightarrow> jsstring \<Rightarrow> bool" where
  "intenseWordAt prev s =
     ((wordBoundary prev (headOpt s) \<and> startsWith_i (js ''yell'') s) \<or>
      startsWith_i (js ''shout'') s \<or>
      (startsWith_i (js ''scream'') s \<and> wordBoundary (headOpt (drop 5 s)) (headOpt (drop 6 s))))"

text \<open>
  \<open>toLowerCase\<close>. Outside ASCII the Unicode tables map a code unit to code units outside
  ASCII, but for U+0130 (to \<open>i\<close> and U+0307) and U+212A (to \<open>k\<close>). The patterns applied to
  the result are ASCII, so the model leaves the other code units as they are.
\<close>

definition toLowerCase :: "jsstring \<Rightarrow> jsstring" where
  "toLowerCase s =
     concat (map (\<lambda>c. if 65 \<le> c \<and> c \<le> 90 then [c + 32]
                       else if c = 304 then [105, 775]
                       else if c = 8490 then [107]
                       else [c]) s)"

definition detectTone :: "jsstring \<Rightarrow> jsstring" where
  "detectTone text =
     (let lowerText = toLowerCase text in
      if contains [33] text \<or> searchFrom intenseWordAt None text then js ''intense''
      else if contains [63] text then js ''questioning''
      else if contains (js ''...'') text \<or> contains [8212] text then js ''hesitant''
      else if contains_i (js ''fuck'') text \<or> contains_i (js ''shit'') text \<or>
              contains_i (js ''damn'') text then js ''aggressive''
      else if contains_i (js ''love'') lowerText \<or> contains_i (js ''care'') lowerText \<or>
              contains_i (js ''sweet'') lowerText then js ''tender''
      else if contains_i (js ''ha'') lowerText \<or> contains_i (js ''heh'') lowerText \<or>
              contains_i (js ''funny'') lowerText then js ''humorous''
      else js ''neutral'')"

record dialogue =
  dl_scene_number :: nat
  dl_character :: jsstring
  dl_line_number :: nat
  dl_text :: jsstring
  dl_length :: nat
  dl_tone :: jsstring

text \<open>\<open>/^(INT\.|EXT\.|FADE|CUT)/\<close>, without the flag \<open>i\<close>.\<close>

definition isDirective :: "jsstring \<Rightarrow> bool" where
  "isDirective s =
     (startsWith (js ''INT.'') s \<or> startsWith (js ''EXT.'') s \<or>
      startsWith (js ''FADE'') s \<or> startsWith (js ''CUT'') s)"

text \<open>The variables of \<open>extractDialogue\<close> inside one scene, and the array it fills.\<close>

record dscan =
  currentCharacter :: "jsstring option"
  lineNumber :: nat
  out :: "dialogue list"

definition dialogueLine :: "scene \<Rightarrow> jsstring \<Rightarrow> dscan \<Rightarrow> dscan" where
  "dialogueLine sc line st =
     (let trimmed = trim line in
      if isCue trimmed \<and> length trimmed < 30 then st\<lparr>currentCharacter := Some trimmed\<rparr>
      else (case currentCharacter st of
              None \<Rightarrow> st
            | Some ch \<Rightarrow>
                if 0 < length trimmed \<and> \<not> isDirective trimmed
                then st\<lparr>lineNumber := lineNumber st + 1,
                        out := out st @
                          [\<lparr>dl_scene_number = scene_number sc,
                            dl_character = ch,
                            dl_line_number = lineNumber st + 1,
                            dl_text = trimmed,
                            dl_length = length (split 32 trimmed),
                            dl_tone = detectTone trimmed\<rparr>]\<rparr>
                else st))"

definition dialogueScene :: "scene \<Rightarrow> dialogue list \<Rightarrow> dialogue list" where
  "dialogueScene sc acc =
     out (fold (dialogueLine sc) (split 10 (content sc))
            \<lparr>currentCharacter = None, lineNumber = 0, out = acc\<rparr>)"

definition extractDialogue :: "scene list \<Rightarrow> character list \<Rightarrow> dialogue list" where
  "extractDialogue scs characters = fold dialogueScene scs []"

record beat =
  beat_type :: jsstring
  page_number :: nat
  beat_scene_number :: nat
  beat_location :: jsstring
  confidence :: rat

text \<open>The templates: a name and the first and last page of its range.\<close>

definition beatTemplates :: "(jsstring \<times> nat \<times> nat) list" where
  "beatTemplates =
     [(js ''Opening Image'', 1, 3),
      (js ''Inciting Incident'', 10, 15),
      (js ''End of Act 1'', 25, 30),
      (js ''Midpoint'', 55, 65),
      (js ''All Is Lost'', 75, 85),
      (js ''Climax'', 90, 100),
      (js ''Resolution'', 105, 115)]"

definition matchingScenes :: "scene list \<Rightarrow> nat \<times> nat \<Rightarrow> scene list" where
  "matchingScenes scs rng =
     filter (\<lambda>s. fst rng \<le> page_start s \<and> page_start s \<le> snd rng) scs"

text \<open>The body of \<open>beatTemplates.forEach\<close>. The sort is stable, larger
  \<open>dialogue_lines.length\<close> first, and \<open>[0]\<close> takes its first element.\<close>

definition beatStep :: "scene list \<Rightarrow> jsstring \<times> nat \<times> nat \<Rightarrow> beat list \<Rightarrow> beat list" where
  "beatStep scs template beats =
     (let m = matchingScenes scs (snd template) in
      if 0 < length m
      then (case sort_key (\<lambda>s. - int (length (dialogue_lines s))) m of
              [] \<Rightarrow> beats
            | importantScene # _ \<Rightarrow>
                beats @
                  [\<lparr>beat_type = fst template,
                    page_number = page_start importantScene,
                    beat_scene_number = scene_number importantScene,
                    beat_location = location importantScene,
                    confidence = (if 1 < length m then 7 / 10 else 5 / 10)\<rparr>])
      else beats)"

text \<open>\<open>Math.ceil(fullText.split('\n').length / 60)\<close>, which \<open>identifyBeats\<close> computes and
  does not use.\<close>

definition totalPagesOf :: "jsstring \<Rightarrow> nat" where
  "totalPagesOf fullText = nat \<lceil>(of_nat (length (split 10 fullText)) :: rat) / 60\<rceil>"

definition identifyBeats :: "scene list \<Rightarrow> jsstring \<Rightarrow> beat list" where
  "identifyBeats scs fullText =
     (let totalPages = totalPagesOf fullText in
      fold (beatStep scs) beatTemplates [])"

text \<open>Steps 1 to 4 of \<open>parseScript\<close>, on the text of the script.\<close>

record parsed =
  p_scenes :: "scene list"
  p_characters :: "character list"
  p_dialogue :: "dialogue list"
  p_beats :: "beat list"

definition parseText :: "jsstring \<Rightarrow> parsed" where
  "parseText text =
     (let scs = extractScenes text;
          chars = extractCharacters scs;
          dlg = extractDialogue scs chars;
          bts = identifyBeats scs text
      in \<lparr>p_scenes = scs, p_characters = chars, p_dialogue = dlg, p_beats = bts\<rparr>)"

section \<open>The outline generator\<close>

text \<open>
  Numbers are the exact rationals and integers: the source computes with doubles, whose
  rounding is not modelled. \<open>Math.round\<close> rounds to the nearest integer, a half upwards.
\<close>

definition mathRound :: "rat \<Rightarrow> int" where
  "mathRound x = \<lfloor>x + 1 / 2\<rfloor>"

text \<open>A number inside a template literal.\<close>

fun showNat :: "nat \<Rightarrow> jsstring" where
  "showNat n = (if n < 10 then [48 + n] else showNat (n div 10) @ [48 + n mod 10])"

definition showInt :: "int \<Rightarrow> jsstring" where
  "showInt i = (if i < 0 then 45 # showNat (nat (- i)) else showNat (nat i))"

text \<open>\<open>x.toFixed(1)\<close>: the nearest multiple of a tenth, the larger of two.\<close>

definition toFixed1 :: "rat \<Rightarrow> jsstring" where
  "toFixed1 x =
     (let a = (if x < 0 then - x else x);
          n = nat \<lfloor>a * 10 + 1 / 2\<rfloor>
      in (if x < 0 then [45] else []) @ showNat (n div 10) @ [46] @ showNat (n mod 10))"

text \<open>A string argument that may be absent (\<open>undefined\<close>), and what a template literal
  prints for it.\<close>

definition interp :: "jsstring option \<Rightarrow> jsstring" where
  "interp v = (case v of None \<Rightarrow> js ''undefined'' | Some s \<Rightarrow> s)"

text \<open>A row of the table \<open>scripts\<close>, with the columns that the generator reads.\<close>

record script =
  script_id :: nat
  title :: jsstring
  year :: "int option"
  genre_tags :: "jsstring list"
  imdb_rating :: rat
  page_count :: "nat option"
  box_office :: "nat option"

text \<open>A row of the table \<open>learned_patterns\<close>, as the pattern engine writes it.\<close>

record learned_pattern =
  pattern_type :: jsstring
  pattern_name :: jsstring
  description :: jsstring
  success_correlation_score :: rat
  found_in_successful_scripts :: nat
  found_in_unsuccessful_scripts :: nat
  genres :: "jsstring list"

text \<open>
  The database client is outside the program: the model takes the \<open>data\<close> field of each
  of the three queries as a parameter, \<open>None\<close> for \<open>null\<close>.
  \<^item> \<open>select_scripts genre limit\<close>: the rows of \<open>scripts\<close> whose \<open>genre_tags\<close> contain
    \<open>genre\<close> and whose \<open>imdb_rating\<close> is at least 7.0, by falling rating, at most \<open>limit\<close>;
  \<^item> \<open>select_story_beats ids\<close>: \<open>beat_type\<close> and \<open>page_number\<close> of the rows of
    \<open>story_beats\<close> whose \<open>script_id\<close> is in \<open>ids\<close>;
  \<^item> \<open>select_learned_patterns\<close>: the rows of \<open>learned_patterns\<close>.
\<close>

record supabase =
  select_scripts :: "jsstring option \<Rightarrow> nat \<Rightarrow> script list option"
  select_story_beats :: "nat list \<Rightarrow> (jsstring \<times> nat) list option"
  select_learned_patterns :: "learned_pattern list option"

text \<open>The field \<open>this.patterns\<close> of the generator.\<close>

record generator =
  patterns :: "learned_pattern list option"

text \<open>The exception that this code can raise, and how a promise settles.\<close>

datatype jserror = TypeError

datatype 'a promise = Resolved 'a | Rejected jserror

definition loadPatterns :: "supabase \<Rightarrow> generator \<Rightarrow> generator" where
  "loadPatterns db g =
     g\<lparr>patterns := Some (case select_learned_patterns db of None \<Rightarrow> [] | Some ps \<Rightarrow> ps)\<rparr>"

definition findSimilarScripts :: "supabase \<Rightarrow> jsstring option \<Rightarrow> nat \<Rightarrow> script list" where
  "findSimilarScripts db genre limit =
     (case select_scripts db genre limit of
        None \<Rightarrow> []
      | Some scripts \<Rightarrow> if length scripts = 0 then [] else scripts)"

record page_structure =
  totalPages :: int
  act1End :: int
  act2aMidpoint :: int
  act2bEnd :: int
  act3End :: int

text \<open>\<open>s.page_count || 110\<close>: a missing or zero page count counts as 110.\<close>

definition pageCountOr110 :: "script \<Rightarrow> nat" where
  "pageCountOr110 s = (case page_count s of None \<Rightarrow> 110 | Some p \<Rightarrow> if p = 0 then 110 else p)"

definition calculateOptimalStructure :: "script list \<Rightarrow> page_structure" where
  "calculateOptimalStructure similarScripts =
     (if length similarScripts = 0
      then \<lparr>totalPages = 110, act1End = 30, act2aMidpoint = 60, act2bEnd = 90, act3End = 110\<rparr>
      else (let avgPages = of_nat (sum_list (map pageCountOr110 similarScripts)) /
                           of_nat (length similarScripts)
            in \<lparr>totalPages = mathRound avgPages,
                act1End = mathRound (avgPages * (25 / 100)),
                act2aMidpoint = mathRound (avgPages * (50 / 100)),
                act2bEnd = mathRound (avgPages * (75 / 100)),
                act3End = mathRound avgPages\<rparr>))"

definition getDefaultBeats :: "jsstring \<rightharpoonup> int" where
  "getDefaultBeats =
     map_of [(js ''Opening Image'', 1),
             (js ''Inciting Incident'', 12),
             (js ''End of Act 1'', 25),
             (js ''Midpoint'', 60),
             (js ''All Is Lost'', 75),
             (js ''Climax'', 95),
             (js ''Resolution'', 110)]"

text \<open>
  "Group by beat type and average". \<open>beatsByType\<close> is an object literal \<open>{}\<close>: its own
  properties are kept here in the order of their creation, and a read of a key that it
  does not own finds the properties it inherits from \<open>Object.prototype\<close>, which are
  functions, or the prototype itself for \<open>__proto__\<close>.
\<close>

definition objectPrototypeKeys :: "jsstring list" where
  "objectPrototypeKeys =
     [js ''constructor'', js ''__defineGetter__'', js ''__defineSetter__'',
      js ''hasOwnProperty'', js ''__lookupGetter__'', js ''__lookupSetter__'',
      js ''isPrototypeOf'', js ''propertyIsEnumerable'', js ''toString'', js ''valueOf'',
      js ''__proto__'', js ''toLocaleString'']"

text \<open>\<open>if (!beatsByType[ty]) beatsByType[ty] = []; beatsByType[ty].push(p)\<close> for a key that
  is not inherited: a new key gets an array, and the page is pushed.\<close>

definition pushPage ::
  "jsstring \<Rightarrow> nat \<Rightarrow> (jsstring \<times> nat list) list \<Rightarrow> (jsstring \<times> nat list) list" where
  "pushPage ty p byType =
     (if ty \<in> set (map fst byType)
      then map (\<lambda>e. if fst e = ty then (fst e, snd e @ [p]) else e) byType
      else byType @ [(ty, [p])])"

text \<open>The loop \<open>beats.forEach\<close>. For an inherited key the test \<open>!beatsByType[ty]\<close> is
  false, no array is stored, and \<open>.push\<close> of the inherited value is \<open>undefined\<close>: the call
  throws a \<open>TypeError\<close>.\<close>

fun groupBeats ::
  "(jsstring \<times> nat) list \<Rightarrow> (jsstring \<times> nat list) list \<Rightarrow>
   jserror + (jsstring \<times> nat list) list" where
  "groupBeats [] byType = Inr byType"
| "groupBeats (b # bs) byType =
     (if fst b \<in> set objectPrototypeKeys then Inl TypeError
      else groupBeats bs (pushPage (fst b) (snd b) byType))"

text \<open>\<open>Object.entries(beatsByType).forEach\<close>: the rounded mean of the pages of each type.\<close>

definition averagedBeats :: "(jsstring \<times> nat list) list \<Rightarrow> (jsstring \<rightharpoonup> int)" where
  "averagedBeats byType =
     map_of (map (\<lambda>e. (fst e, mathRound (of_nat (sum_list (snd e)) / of_nat (length (snd e)))))
               byType)"

definition getBeatTiming :: "supabase \<Rightarrow> script list \<Rightarrow> jserror + (jsstring \<rightharpoonup> int)" where
  "getBeatTiming db similarScripts =
     (if length similarScripts = 0 then Inr getDefaultBeats
      else (case select_story_beats db (map script_id similarScripts) of
              None \<Rightarrow> Inr getDefaultBeats
            | Some beats \<Rightarrow>
                if length beats = 0 then Inr getDefaultBeats
                else (case groupBeats beats [] of
                        Inl e \<Rightarrow> Inl e
                      | Inr byType \<Rightarrow> Inr (averagedBeats byType))))"

text \<open>\<open>beats[key] || d\<close>: a missing entry and the page 0 give the default.\<close>

definition beatOr :: "(jsstring \<rightharpoonup> int) \<Rightarrow> jsstring \<Rightarrow> int \<Rightarrow> int" where
  "beatOr beats key d = (case beats key of None \<Rightarrow> d | Some v \<Rightarrow> if v = 0 then d else v)"

record comparable =
  c_title :: jsstring
  c_rating :: rat
  c_year :: "int option"

record prediction =
  probability :: rat
  pr_confidence :: jsstring
  reasoning :: jsstring
  comparables :: "comparable list option"

definition avgRating :: "script list \<Rightarrow> rat" where
  "avgRating similarScripts =
     sum_list (map imdb_rating similarScripts) / of_nat (length similarScripts)"

text \<open>The constant \<open>probability\<close> of \<open>predictSuccess\<close>, before it is rounded.\<close>

definition rawProbability :: "script list \<Rightarrow> rat" where
  "rawProbability similarScripts = min (95 / 100) (avgRating similarScripts / 10)"

definition predictSuccess :: "script list \<Rightarrow> jsstring option \<Rightarrow> prediction" where
  "predictSuccess similarScripts genre =
     (if length similarScripts = 0
      then \<lparr>probability = 65 / 100,
            pr_confidence = js ''medium'',
            reasoning = js ''Based on general patterns (no similar scripts in database)'',
            comparables = None\<rparr>
      else (let probability = rawProbability similarScripts in
            \<lparr>probability = of_int (mathRound (probability * 100)) / 100,
             pr_confidence = (if probability > 75 / 100 then js ''high''
                              else if probability > 65 / 100 then js ''medium''
                              else js ''low''),
             reasoning = js ''Based on '' @ showNat (length similarScripts) @
                         js '' similar successful '' @ interp genre @
                         js '' scripts (avg rating: '' @ toFixed1 (avgRating similarScripts) @
                         js '')'',
             comparables = Some (map (\<lambda>s. \<lparr>c_title = title s, c_rating = imdb_rating s,
                                                c_year = year s\<rparr>)
                                     (take 3 similarScripts))\<rparr>))"

record recommendations =
  r_targetLength :: jsstring
  r_pacing :: jsstring
  r_characters :: jsstring
  r_dialogue :: jsstring
  r_budget :: "jsstring option"

text \<open>The mean of the box offices that are present and not zero; with none of them the
  source divides zero by zero, and the comparison of the result with 0 is false.\<close>

definition generateRecommendations :: "script list \<Rightarrow> page_structure \<Rightarrow> recommendations" where
  "generateRecommendations similarScripts st =
     (let offices = filter (\<lambda>b. b \<noteq> 0) (concat (map (\<lambda>s. case box_office s of None \<Rightarrow> [] | Some b \<Rightarrow> [b])
                                                   similarScripts));
          avgBoxOffice = (of_nat (sum_list offices) :: rat) / of_nat (length offices)
      in \<lparr>r_targetLength = showInt (totalPages st) @ js '' pages (optimal for this genre)'',
          r_pacing = js ''Follow the beat timing closely for maximum impact'',
          r_characters = js ''8-12 distinct characters (protagonist + supporting cast)'',
          r_dialogue = js ''Keep dialogue concise: 6-9 words per line average'',
          r_budget =
            (if 0 < length similarScripts \<and> offices \<noteq> [] \<and> avgBoxOffice > 0
             then Some (if avgBoxOffice > 100000000 then js ''$40-80M (theatrical tentpole)''
                        else if avgBoxOffice > 50000000 then js ''$20-40M (mid-budget theatrical)''
                        else js ''$5-20M (indie/streaming)'')
             else None)\<rparr>)"

text \<open>The \<open>page\<close> of a beat of the outline is a number or a string.\<close>

datatype page_ref = PageNumber int | PageText jsstring

record outline_beat =
  ob_name :: jsstring
  ob_page :: page_ref
  ob_description :: jsstring
  ob_example :: jsstring

record act =
  a_title :: jsstring
  a_pages :: jsstring
  a_beats :: "outline_beat list"

record outline =
  o_premise :: "jsstring option"
  o_genre :: "jsstring option"
  o_structure :: page_structure
  o_act1 :: act
  o_act2a :: act
  o_act2b :: act
  o_act3 :: act
  o_prediction :: prediction
  o_recommendations :: recommendations

text \<open>\<open>`${a}-${b}`\<close> for two numbers.\<close>

definition pageSpan :: "int \<Rightarrow> int \<Rightarrow> jsstring" where
  "pageSpan a b = showInt a @ [45] @ showInt b"

text \<open>"Override with target length if provided": \<open>if (targetLength)\<close> holds for a number
  that is not zero.\<close>

definition overrideStructure :: "int option \<Rightarrow> page_structure \<Rightarrow> page_structure" where
  "overrideStructure targetLength st =
     (case targetLength of
        None \<Rightarrow> st
      | Some t \<Rightarrow>
          if t = 0 then st
          else \<lparr>totalPages = t,
                act1End = mathRound (of_int t * (25 / 100)),
                act2aMidpoint = mathRound (of_int t * (50 / 100)),
                act2bEnd = mathRound (of_int t * (75 / 100)),
                act3End = t\<rparr>)"

definition act1Of :: "jsstring option \<Rightarrow> jsstring option \<Rightarrow> page_structure \<Rightarrow> (jsstring \<rightharpoonup> int) \<Rightarrow> act" where
  \<open>act1Of premise genre st beats =
     \<lparr>a_title = js ''ACT 1: SETUP'',
      a_pages = pageSpan 1 (act1End st),
      a_beats =
        [\<lparr>ob_name = js ''Opening Image'',
          ob_page = PageNumber (beatOr beats (js ''Opening Image'') 1),
          ob_description = js ''Establish the protagonist's ordinary world. Show their life before the journey begins.'',
          ob_example = js ''Based on successful '' @ interp genre @
                       js '' scripts: Introduce protagonist in their normal routine, hint at their flaw/need.''\<rparr>,
         \<lparr>ob_name = js ''Theme Stated'',
          ob_page = PageNumber 5,
          ob_description = js ''Someone states the theme/lesson of the story (often subtly).'',
          ob_example = js ''A conversation or observation that hints at what the protagonist will learn.''\<rparr>,
         \<lparr>ob_name = js ''Setup'',
          ob_page = PageText (js ''1-10''),
          ob_description = js ''Establish all the "pieces" - characters, relationships, world rules.'',
          ob_example = js ''Introduce supporting characters, establish protagonist's wants vs needs.''\<rparr>,
         \<lparr>ob_name = js ''Inciting Incident'',
          ob_page = PageNumber (beatOr beats (js ''Inciting Incident'') 12),
          ob_description = js ''The event that disrupts the ordinary world and starts the story.'',
          ob_example = js ''In your story: The catalyst that forces the protagonist into action related to: "'' @
                       interp premise @ js ''"''\<rparr>,
         \<lparr>ob_name = js ''Debate'',
          ob_page = PageText (js ''12-25''),
          ob_description = js ''Protagonist debates whether to take the journey. Should they? Can they?'',
          ob_example = js ''Show internal/external resistance. Raise the stakes. Make it personal.''\<rparr>,
         \<lparr>ob_name = js ''Break into Two'',
          ob_page = PageNumber (beatOr beats (js ''End of Act 1'') (act1End st)),
          ob_description = js ''Protagonist makes the choice to enter Act 2. Crosses the threshold.'',
          ob_example = js ''Point of no return. They commit to the goal. Enter the "upside-down world".''\<rparr>]\<rparr>\<close>

definition act2aOf :: "jsstring option \<Rightarrow> page_structure \<Rightarrow> (jsstring \<rightharpoonup> int) \<Rightarrow> act" where
  \<open>act2aOf genre st beats =
     \<lparr>a_title = js ''ACT 2A: CONFRONTATION'',
      a_pages = pageSpan (act1End st + 1) (act2aMidpoint st),
      a_beats =
        [\<lparr>ob_name = js ''B Story Begins'',
          ob_page = PageNumber (act1End st + 5),
          ob_description = js ''Introduce the relationship/subplot that will help protagonist learn the theme.'',
          ob_example = js ''New ally, mentor, or love interest who represents the "need" vs "want".''\<rparr>,
         \<lparr>ob_name = js ''Fun and Games'',
          ob_page = PageText (pageSpan (act1End st + 10) (act2aMidpoint st - 5)),
          ob_description = js ''The "promise of the premise". The fun part. What the poster advertises.'',
          ob_example = js ''Deliver on the '' @ interp genre @
                       js '' genre expectations. Show protagonist tackling the problem with initial confidence.''\<rparr>,
         \<lparr>ob_name = js ''Midpoint'',
          ob_page = PageNumber (beatOr beats (js ''Midpoint'') (act2aMidpoint st)),
          ob_description = js ''False victory or false defeat. Stakes are raised. Time clock appears/intensifies.'',
          ob_example = js ''Either: protagonist gets what they want (but not what they need), OR everything falls apart. Either way - everything changes.''\<rparr>]\<rparr>\<close>

definition act2bOf :: "page_structure \<Rightarrow> (jsstring \<rightharpoonup> int) \<Rightarrow> act" where
  \<open>act2bOf st beats =
     \<lparr>a_title = js ''ACT 2B: COMPLICATIONS'',
      a_pages = pageSpan (act2aMidpoint st + 1) (act2bEnd st),
      a_beats =
        [\<lparr>ob_name = js ''Bad Guys Close In'',
          ob_page = PageText (pageSpan (act2aMidpoint st + 5) (act2bEnd st - 15)),
          ob_description = js ''Internal and external forces close in. Things get worse.'',
          ob_example = js ''If Midpoint was a victory: enemies regroup and hit harder. If defeat: protagonist struggles to recover. Pressure mounts.''\<rparr>,
         \<lparr>ob_name = js ''All Is Lost'',
          ob_page = PageNumber (beatOr beats (js ''All Is Lost'') (act2bEnd st - 15)),
          ob_description = js ''Lowest point. The "whiff of death" - something or someone dies (literally or metaphorically).'',
          ob_example = js ''False defeat. Mentor dies, relationship ends, hope is lost. Opposite of Midpoint.''\<rparr>,
         \<lparr>ob_name = js ''Dark Night of the Soul'',
          ob_page = PageText (pageSpan (act2bEnd st - 10) (act2bEnd st - 5)),
          ob_description = js ''Protagonist wallows in defeat. Seems impossible to win.'',
          ob_example = js ''Emotional low. Protagonist reflects on failures. Doubt reaches peak.''\<rparr>,
         \<lparr>ob_name = js ''Break into Three'',
          ob_page = PageNumber (act2bEnd st),
          ob_description = js ''Thanks to B Story, protagonist finds the solution. Synthesis of A and B stories.'',
          ob_example = js ''Eureka moment. Protagonist realizes what they need (not just want). Finds clarity and resolve.''\<rparr>]\<rparr>\<close>

definition act3Of :: "jsstring option \<Rightarrow> page_structure \<Rightarrow> (jsstring \<rightharpoonup> int) \<Rightarrow> act" where
  \<open>act3Of genre st beats =
     \<lparr>a_title = js ''ACT 3: RESOLUTION'',
      a_pages = pageSpan (act2bEnd st + 1) (act3End st),
      a_beats =
        [\<lparr>ob_name = js ''Finale'',
          ob_page = PageText (pageSpan (act2bEnd st + 1) (act3End st - 5)),
          ob_description = js ''Protagonist executes the new plan. Synthesis of want + need.'',
          ob_example = js ''The big '' @ interp genre @
                       js '' climax. Protagonist uses everything they've learned. Faces the antagonist/obstacle with new understanding.''\<rparr>,
         \<lparr>ob_name = js ''Climax'',
          ob_page = PageNumber (beatOr beats (js ''Climax'') (act3End st - 10)),
          ob_description = js ''The decisive moment. A vs B. Will protagonist succeed?'',
          ob_example = js ''The ultimate confrontation. Tension peaks. All or nothing.''\<rparr>,
         \<lparr>ob_name = js ''Final Image'',
          ob_page = PageNumber (beatOr beats (js ''Resolution'') (act3End st)),
          ob_description = js ''Mirror of Opening Image. Shows how protagonist has changed.'',
          ob_example = js ''The "new world". Protagonist in their changed state. Theme proven. Opposite of Opening Image.''\<rparr>]\<rparr>\<close>

text \<open>
  \<open>generateOutline\<close>: the generator's state is passed in, and returned with the way the
  promise settles. The function has no \<open>throw\<close> of its own and checks neither argument;
  the database client reports a failure in its answer (\<open>data\<close> is \<open>null\<close>). The exception
  of \<open>getBeatTiming\<close> is not caught: it rejects the promise, after the patterns were loaded.
\<close>

definition generateOutline ::
  "supabase \<Rightarrow> generator \<Rightarrow> jsstring option \<Rightarrow> jsstring option \<Rightarrow> int option \<Rightarrow>
   outline promise \<times> generator" where
  "generateOutline db g premise genre targetLength =
     (let g1 = (if patterns g = None then loadPatterns db g else g);
          similarScripts = findSimilarScripts db genre 10;
          st0 = calculateOptimalStructure similarScripts
      in case getBeatTiming db similarScripts of
           Inl e \<Rightarrow> (Rejected e, g1)
         | Inr beats \<Rightarrow>
             (let st = overrideStructure targetLength st0 in
              (Resolved
                 \<lparr>o_premise = premise,
                  o_genre = genre,
                  o_structure = st,
                  o_act1 = act1Of premise genre st beats,
                  o_act2a = act2aOf genre st beats,
                  o_act2b = act2bOf st beats,
                  o_act3 = act3Of genre st beats,
                  o_prediction = predictSuccess similarScripts genre,
                  o_recommendations = generateRecommendations similarScripts st\<rparr>, g1)))"

section \<open>Inputs of the examples\<close>

text \<open>A scene of four lines: a header, a cue, and a speech on two lines.\<close>

definition sampleText :: jsstring where
  "sampleText = js ''INT. ROOM - DAY\<newline>JOHN\<newline>Hello there\<newline>more words''"

definition sampleScene :: scene where
  "sampleScene =
     \<lparr>scene_number = 1, scene_type = js ''INT.'', location = js ''ROOM'', time = js ''DAY'',
      page_start = 0, page_end = Some 1,
      content = js ''INT. ROOM - DAY\<newline>JOHN\<newline>Hello there\<newline>more words\<newline>'',
      dialogue_lines = [js ''Hello there''],
      action_lines = [js ''INT. ROOM - DAY'', js ''more words''],
      characters_present = [js ''JOHN''],
      dialogue_ratio = Some (1 / 4)\<rparr>"

section \<open>The invariant of the loop of \<open>extractScenes\<close>\<close>

definition pagesOrdered :: "scene \<Rightarrow> bool" where
  "pagesOrdered s = (case page_end s of None \<Rightarrow> False | Some e \<Rightarrow> page_start s \<le> e)"

text \<open>The scenes pushed so far are closed with ordered pages, and the open scene started
  no later than the current page.\<close>

definition scanInv :: "scan \<Rightarrow> bool" where
  "scanInv st =
     (list_all pagesOrdered (scenes st) \<and>
      (case currentScene st of None \<Rightarrow> True | Some cs \<Rightarrow> page_start cs \<le> pageCount st))"

section \<open>The tone heuristic as an ordered list of rules\<close>

text \<open>The rules of the tone heuristic as an ordered list, evaluated from the top: the test
  of a rule and its label. \<open>firstMatch\<close> gives the label of the first rule whose test holds,
  and \<open>neutral\<close> when none does.\<close>

definition toneRules :: "((jsstring \<Rightarrow> bool) \<times> jsstring) list" where
  "toneRules =
     [(\<lambda>t. contains [33] t \<or> searchFrom intenseWordAt None t, js ''intense''),
      (\<lambda>t. contains [63] t, js ''questioning''),
      (\<lambda>t. contains (js ''...'') t \<or> contains [8212] t, js ''hesitant''),
      (\<lambda>t. contains_i (js ''fuck'') t \<or> contains_i (js ''shit'') t \<or> contains_i (js ''damn'') t,
       js ''aggressive''),
      (\<lambda>t. contains_i (js ''love'') (toLowerCase t) \<or> contains_i (js ''care'') (toLowerCase t) \<or>
            contains_i (js ''sweet'') (toLowerCase t), js ''tender''),
      (\<lambda>t. contains_i (js ''ha'') (toLowerCase t) \<or> contains_i (js ''heh'') (toLowerCase t) \<or>
            contains_i (js ''funny'') (toLowerCase t), js ''humorous'')]"

fun firstMatch :: "((jsstring \<Rightarrow> bool) \<times> jsstring) list \<Rightarrow> jsstring \<Rightarrow> jsstring" where
  "firstMatch [] t = js ''neutral''"
| "firstMatch ((p, l) # rs) t = (if p t then l else firstMatch rs t)"

definition toneLabels :: "jsstring list" where
  "toneLabels = [js ''intense'', js ''questioning'', js ''hesitant'', js ''aggressive'',
                 js ''tender'', js ''humorous'', js ''neutral'']"

text \<open>A line with a question mark and an exclamation mark.\<close>

definition bothMarks :: jsstring where
  "bothMarks = js ''What?!''"

text \<open>The dialogue of \<open>sampleText\<close>.\<close>

definition sampleDialogue :: "dialogue list" where
  "sampleDialogue =
     [\<lparr>dl_scene_number = 1, dl_character = js ''JOHN'', dl_line_number = 1,
       dl_text = js ''Hello there'', dl_length = 2, dl_tone = js ''neutral''\<rparr>,
      \<lparr>dl_scene_number = 1, dl_character = js ''JOHN'', dl_line_number = 2,
       dl_text = js ''more words'', dl_length = 2, dl_tone = js ''neutral''\<rparr>]"

section \<open>Inputs of the examples of \<open>identifyBeats\<close>\<close>

text \<open>A scene for the examples of \<open>identifyBeats\<close>: its number, its first page and the
  number of its dialogue lines.\<close>

definition exampleScene :: "nat \<Rightarrow> nat \<Rightarrow> nat \<Rightarrow> scene" where
  "exampleScene n p d =
     \<lparr>scene_number = n, scene_type = js ''INT.'', location = js ''ROOM'', time = js ''DAY'',
      page_start = p, page_end = Some p, content = js ''INT. ROOM - DAY'' @ [10],
      dialogue_lines = replicate d (js ''Hi''), action_lines = [js ''INT. ROOM - DAY''],
      characters_present = [], dialogue_ratio = Some (of_nat d / of_nat (d + 2))\<rparr>"

text \<open>Three scenes on the pages 1 to 3, the last two with the most dialogue, and a scene
  on page 9.\<close>

definition tieScenes :: "scene list" where
  "tieScenes = [exampleScene 1 1 1, exampleScene 2 2 2, exampleScene 3 3 2, exampleScene 4 9 5]"

section \<open>A long script with one scene\<close>

text \<open>The page counter when the loop of \<open>extractScenes\<close> reads line \<open>i\<close>: the number of the
  lines before it whose index is a multiple of 60.\<close>

definition pagesBefore :: "nat \<Rightarrow> nat" where
  "pagesBefore i = (i + 59) div 60"

text \<open>A script of one scene: \<open>a\<close> empty lines, a header, and \<open>b\<close> more line breaks.\<close>

definition paddedScript :: "nat \<Rightarrow> nat \<Rightarrow> jsstring" where
  "paddedScript a b = replicate a 10 @ js ''INT. ROOM - DAY'' @ replicate b 10"

text \<open>The scene that \<open>extractScenes\<close> finds in \<open>paddedScript a (b + 1)\<close>.\<close>

definition paddedScene :: "nat \<Rightarrow> nat \<Rightarrow> scene" where
  "paddedScene a b =
     \<lparr>scene_number = 1, scene_type = js ''INT.'', location = js ''ROOM'', time = js ''DAY'',
      page_start = pagesBefore a, page_end = Some (pagesBefore (a + b + 2)),
      content = js ''INT. ROOM - DAY'' @ replicate (b + 2) 10,
      dialogue_lines = [],
      action_lines = [js ''INT. ROOM - DAY''],
      characters_present = [],
      dialogue_ratio = Some 0\<rparr>"

text \<open>A script of 12000 lines, 200 pages, whose only scene starts on line 3541, page 60.\<close>

definition longScript :: jsstring where
  "longScript = paddedScript 3541 8458"

section \<open>Inputs of the examples of the outline generator\<close>

text \<open>A database with no rows, and a generator that has not loaded its patterns.\<close>

definition emptyDb :: supabase where
  "emptyDb =
     \<lparr>select_scripts = (\<lambda>genre limit. Some []),
      select_story_beats = (\<lambda>ids. Some []),
      select_learned_patterns = Some []\<rparr>"

definition newGenerator :: generator where
  "newGenerator = \<lparr>patterns = None\<rparr>"

text \<open>A database whose Action scripts are the three comparables below, with three rows of
  story beats; and the same database with a row whose \<open>beat_type\<close> is \<open>constructor\<close>.\<close>

definition actionBeats :: "(jsstring \<times> nat) list" where
  "actionBeats = [(js ''Midpoint'', 58), (js ''Climax'', 97), (js ''Midpoint'', 61)]"

text \<open>Three comparables with the ratings 8.0, 7.5 and 7.4.\<close>

definition threeComparables :: "script list" where
  "threeComparables =
     [\<lparr>script_id = 1, title = js ''Aliens'', year = Some 1986, genre_tags = [js ''Action''],
       imdb_rating = 8, page_count = Some 110, box_office = None\<rparr>,
      \<lparr>script_id = 2, title = js ''Predator'', year = Some 1987, genre_tags = [js ''Action''],
       imdb_rating = 75 / 10, page_count = Some 110, box_office = None\<rparr>,
      \<lparr>script_id = 3, title = js ''American Sniper'', year = Some 2014,
       genre_tags = [js ''Action''], imdb_rating = 74 / 10, page_count = Some 110,
       box_office = None\<rparr>]"

definition actionDb :: supabase where
  "actionDb =
     \<lparr>select_scripts = (\<lambda>genre limit. if genre = Some (js ''Action'')
                                        then Some (take limit threeComparables) else Some []),
      select_story_beats = (\<lambda>ids. Some actionBeats),
      select_learned_patterns = Some []\<rparr>"

definition constructorDb :: supabase where
  "constructorDb =
     actionDb\<lparr>select_story_beats := (\<lambda>ids. Some (actionBeats @ [(js ''constructor'', 5)]))\<rparr>"

section \<open>Evaluation\<close>

lemmas str_defs = js_def isWhiteSpace_def isLineTerminator_def isUpperAZ_def isWordChar_def
  canonicalize_def trim_def startsWith_def startsWith_i_def isSceneHeader_def isCue_def
  timeWords_def matchTail_def matchHeader_def toUpperCase_def

lemmas scan_defs = saveScene_def newScene_def setAdd_def addContent_def scanLine_def
  scanInit_def scanLines_def setRatio_def extractScenes_def

lemma sample_scenes: "extractScenes sampleText = [sampleScene]"
  by (simp add: sampleText_def sampleScene_def str_defs scan_defs Let_def upt_rec)

section \<open>The scenes of \<open>extractScenes\<close>\<close>

lemma length_saveScene_scanLine:
  "length (saveScene (scanLine lines i st)) =
   length (saveScene st) + (if isSceneHeader (trim (lines ! i)) then 1 else 0)"
  by (simp add: scanLine_def saveScene_def Let_def split: option.splits)

lemma length_saveScene_fold:
  "n \<le> length lines \<Longrightarrow>
   length (saveScene (fold (scanLine lines) [0..<n] st)) =
   length (saveScene st) + length (filter (\<lambda>l. isSceneHeader (trim l)) (take n lines))"
proof (induction n)
  case 0
  then show ?case by simp
next
  case (Suc n)
  then have "n < length lines" by simp
  then have "take (Suc n) lines = take n lines @ [lines ! n]"
    by (simp add: take_Suc_conv_app_nth)
  with Suc show ?case
    by (simp add: length_saveScene_scanLine)
qed

text \<open>
  C3. For every text, \<open>extractScenes\<close> returns as many scenes as there are lines whose
  trimmed text starts with \<open>INT.\<close> or \<open>EXT.\<close> in any case: a header closes and pushes the
  open scene and opens the next, and the scene still open at the end of the input is
  pushed after the loop.
\<close>

theorem extractScenes_count:
  "length (extractScenes text) =
   length (filter (\<lambda>l. isSceneHeader (trim l)) (split 10 text))"
  using length_saveScene_fold [of "length (split 10 text)" "split 10 text" scanInit]
  by (simp add: extractScenes_def scanLines_def saveScene_def scanInit_def)

lemma page_start_addContent: "page_start (addContent lines i line cs) = page_start cs"
  by (simp add: addContent_def Let_def)

lemma page_start_newScene: "page_start (newScene n pc line) = pc"
  by (simp add: newScene_def Let_def)

lemma scanInv_scanLine: "scanInv st \<Longrightarrow> scanInv (scanLine lines i st)"
  by (auto simp add: scanInv_def scanLine_def saveScene_def Let_def pagesOrdered_def
      page_start_addContent page_start_newScene split: option.splits)

lemma scanInv_fold: "scanInv st \<Longrightarrow> scanInv (fold (scanLine lines) xs st)"
  by (induction xs arbitrary: st) (simp_all add: scanInv_scanLine)

lemma scanInv_saveScene: "scanInv st \<Longrightarrow> list_all pagesOrdered (saveScene st)"
  by (auto simp add: scanInv_def saveScene_def pagesOrdered_def split: option.splits)

lemma pagesOrdered_setRatio: "pagesOrdered (setRatio s) = pagesOrdered s"
  by (simp add: pagesOrdered_def setRatio_def split: option.splits)

text \<open>
  C9. Every scene that \<open>extractScenes\<close> returns has a \<open>page_end\<close>, and its \<open>page_start\<close>
  is at most its \<open>page_end\<close>: the page counter only grows between the opening of a scene
  and its closing.
\<close>

theorem extractScenes_pages_ordered:
  "s \<in> set (extractScenes text) \<Longrightarrow> \<exists>e. page_end s = Some e \<and> page_start s \<le> e"
proof -
  assume a: "s \<in> set (extractScenes text)"
  have "scanInv scanInit" by (simp add: scanInv_def scanInit_def)
  then have "list_all pagesOrdered (saveScene (scanLines (split 10 text)))"
    unfolding scanLines_def by (intro scanInv_saveScene scanInv_fold)
  then have "list_all pagesOrdered (extractScenes text)"
    by (simp add: extractScenes_def list_all_iff pagesOrdered_setRatio)
  with a have "pagesOrdered s" by (simp add: list_all_iff)
  then show ?thesis by (simp add: pagesOrdered_def split: option.splits)
qed

theorem extractScenes_pages_ordered_witness:
  "sampleScene \<in> set (extractScenes sampleText) \<and>
   page_end sampleScene = Some 1 \<and> page_start sampleScene \<le> 1"
  using extractScenes_pages_ordered [of sampleScene sampleText]
  by (simp add: sample_scenes sampleScene_def)

text \<open>
  C8. Every scene that \<open>extractScenes\<close> returns has
  \<open>dialogue_ratio = dialogue_lines / (dialogue_lines + action_lines + 1)\<close>, counting the
  lines of each kind, and the ratio is at least 0 and less than 1.
\<close>

theorem extractScenes_dialogue_ratio:
  "s \<in> set (extractScenes text) \<Longrightarrow>
   dialogue_ratio s =
     Some (of_nat (length (dialogue_lines s)) /
           of_nat (length (dialogue_lines s) + length (action_lines s) + 1)) \<and>
   (\<exists>r. dialogue_ratio s = Some r \<and> 0 \<le> r \<and> r < 1)"
proof -
  assume "s \<in> set (extractScenes text)"
  then obtain s0 where s: "s = setRatio s0"
    by (auto simp add: extractScenes_def)
  let ?d = "length (dialogue_lines s0)" and ?a = "length (action_lines s0)"
  let ?r = "(of_nat ?d :: rat) / of_nat (?d + ?a + 1)"
  have lines: "dialogue_lines s = dialogue_lines s0" "action_lines s = action_lines s0"
    by (simp_all add: s setRatio_def)
  have ratio: "dialogue_ratio s = Some ?r"
    by (simp add: s setRatio_def)
  have "(of_nat ?d :: rat) < of_nat (?d + ?a + 1)" by simp
  then have "0 \<le> ?r \<and> ?r < 1"
    by (simp add: divide_less_eq)
  with ratio lines show ?thesis by simp
qed

theorem extractScenes_dialogue_ratio_witness:
  "sampleScene \<in> set (extractScenes sampleText) \<and>
   dialogue_ratio sampleScene = Some (1 / 4) \<and> (0::rat) \<le> 1 / 4 \<and> (1 / 4 :: rat) < 1"
  using extractScenes_dialogue_ratio [of sampleScene sampleText]
  by (simp add: sample_scenes sampleScene_def)

section \<open>Tone and dialogue\<close>

lemma contains_single: "contains [c] t = (c \<in> set t)"
  by (induction t) (auto simp add: startsWith_def)

lemma detectTone_firstMatch: "detectTone t = firstMatch toneRules t"
  by (simp add: detectTone_def toneRules_def Let_def)

lemma detectTone_label: "detectTone t \<in> set toneLabels"
  by (simp add: detectTone_def toneLabels_def Let_def)

lemma intense_neq_questioning: "js ''intense'' \<noteq> js ''questioning''"
  by (simp add: js_def)

text \<open>
  C7. \<open>detectTone\<close> is a function of its text alone. Its result is one of the seven
  labels; it is the label of the first rule, in the order intense, questioning, hesitant,
  aggressive, tender, humorous, whose test the text passes, and neutral when it passes
  none; and a text with both an exclamation mark and a question mark is intense, not
  questioning.
\<close>

theorem detectTone_priority:
  "detectTone t \<in> set toneLabels \<and>
   detectTone t = firstMatch toneRules t \<and>
   (33 \<in> set t \<and> 63 \<in> set t \<longrightarrow>
      detectTone t = js ''intense'' \<and> detectTone t \<noteq> js ''questioning'')"
proof -
  have "33 \<in> set t \<Longrightarrow> detectTone t = js ''intense''"
    by (simp add: detectTone_def Let_def contains_single)
  then show ?thesis
    using detectTone_label [of t] detectTone_firstMatch [of t] intense_neq_questioning
    by auto
qed

theorem detectTone_priority_witness:
  "33 \<in> set bothMarks \<and> 63 \<in> set bothMarks \<and> detectTone bothMarks = js ''intense'' \<and>
   detectTone bothMarks \<noteq> js ''questioning'' \<and> detectTone bothMarks \<in> set toneLabels"
proof -
  have m: "33 \<in> set bothMarks \<and> 63 \<in> set bothMarks"
    by (simp add: bothMarks_def js_def)
  with detectTone_priority [of bothMarks] show ?thesis by blast
qed

lemmas tone_defs = detectTone_def toLowerCase_def intenseWordAt_def wordBoundary_def
  isWordOpt_def headOpt_def

lemma tone1: "detectTone (js ''Hello there'') = js ''neutral''"
  by (simp add: tone_defs str_defs Let_def)

lemma tone2: "detectTone (js ''more words'') = js ''neutral''"
  by (simp add: tone_defs str_defs Let_def)

lemma split_content: "split 10 (content sampleScene) =
   [js ''INT. ROOM - DAY'', js ''JOHN'', js ''Hello there'', js ''more words'', []]"
  by (simp add: sampleScene_def js_def)

lemma sample_dialogue: "extractDialogue [sampleScene] chars = sampleDialogue"
  apply (simp add: extractDialogue_def dialogueScene_def split_content)
  apply (simp add: dialogueLine_def isDirective_def str_defs Let_def sampleDialogue_def sampleScene_def
      tone1 [unfolded js_def, simplified] tone2 [unfolded js_def, simplified])
  done

lemma dialogue_lines_addContent:
  "dialogue_lines (addContent lines i line cs) =
   (if \<not> isCue line \<and> 0 < length line \<and> 0 < i \<and> isCue (trim (lines ! (i - 1)))
    then dialogue_lines cs @ [line] else dialogue_lines cs)"
  by (simp add: addContent_def Let_def)

lemma out_dialogueLine:
  "length (out (dialogueLine sc line st)) =
   length (out st) +
   (if \<not> (isCue (trim line) \<and> length (trim line) < 30) \<and> currentCharacter st \<noteq> None \<and>
       0 < length (trim line) \<and> \<not> isDirective (trim line)
    then 1 else 0)"
  by (auto simp add: dialogueLine_def Let_def split: option.splits)

lemma currentCharacter_dialogueLine:
  "currentCharacter (dialogueLine sc line st) =
   (if isCue (trim line) \<and> length (trim line) < 30 then Some (trim line)
    else currentCharacter st)"
  by (auto simp add: dialogueLine_def Let_def split: option.splits)

text \<open>
  C10. The two counts of dialogue that the parser computes differ for some text: for a
  header, a cue and a speech on two lines, \<open>extractDialogue\<close> returns two lines and the
  scene of \<open>extractScenes\<close> has one dialogue line. \<open>extractScenes\<close> adds a line to
  \<open>dialogue_lines\<close> exactly when it is no cue, is not empty and the line before it,
  trimmed, is a cue. \<open>extractDialogue\<close> adds a line exactly when it is no short cue, is
  not empty after trimming, does not start with \<open>INT.\<close>, \<open>EXT.\<close>, \<open>FADE\<close> or \<open>CUT\<close>, and
  a speaker is set; the speaker stays until the next short cue.
\<close>

theorem dialogue_counts_differ:
  "(\<exists>text. length (p_dialogue (parseText text)) \<noteq>
       sum_list (map (\<lambda>s. length (dialogue_lines s)) (p_scenes (parseText text)))) \<and>
   length (p_dialogue (parseText sampleText)) = 2 \<and>
   sum_list (map (\<lambda>s. length (dialogue_lines s)) (p_scenes (parseText sampleText))) = 1 \<and>
   dialogue_lines (addContent lines i line cs) =
     (if \<not> isCue line \<and> 0 < length line \<and> 0 < i \<and> isCue (trim (lines ! (i - 1)))
      then dialogue_lines cs @ [line] else dialogue_lines cs) \<and>
   length (out (dialogueLine sc l st)) =
     length (out st) +
     (if \<not> (isCue (trim l) \<and> length (trim l) < 30) \<and> currentCharacter st \<noteq> None \<and>
         0 < length (trim l) \<and> \<not> isDirective (trim l)
      then 1 else 0) \<and>
   currentCharacter (dialogueLine sc l st) =
     (if isCue (trim l) \<and> length (trim l) < 30 then Some (trim l) else currentCharacter st)"
proof -
  have d: "length (p_dialogue (parseText sampleText)) = 2"
    by (simp add: parseText_def Let_def sample_scenes sample_dialogue sampleDialogue_def)
  have s: "sum_list (map (\<lambda>s. length (dialogue_lines s)) (p_scenes (parseText sampleText))) = 1"
    by (simp add: parseText_def Let_def sample_scenes sampleScene_def)
  from d s have "length (p_dialogue (parseText sampleText)) \<noteq>
       sum_list (map (\<lambda>s. length (dialogue_lines s)) (p_scenes (parseText sampleText)))"
    by simp
  then have "\<exists>text. length (p_dialogue (parseText text)) \<noteq>
       sum_list (map (\<lambda>s. length (dialogue_lines s)) (p_scenes (parseText text)))" ..
  with d s show ?thesis
    by (simp only: dialogue_lines_addContent out_dialogueLine currentCharacter_dialogueLine
        simp_thms)
qed

section \<open>The beats of \<open>identifyBeats\<close>\<close>

lemma fold_beatStep:
  "fold (beatStep scs) ts acc = acc @ concat (map (\<lambda>t. beatStep scs t []) ts)"
proof (induction ts arbitrary: acc)
  case Nil
  then show ?case by simp
next
  case (Cons t ts)
  have "beatStep scs t acc = acc @ beatStep scs t []"
    by (simp add: beatStep_def Let_def split: list.splits)
  with Cons show ?case by simp
qed

lemma identifyBeats_concat:
  "identifyBeats scs text = concat (map (\<lambda>t. beatStep scs t []) beatTemplates)"
  by (simp add: identifyBeats_def Let_def fold_beatStep)

lemma hd_insort_key:
  "hd (insort_key f x ys) = (if ys = [] then x else if f x \<le> f (hd ys) then x else hd ys)"
  by (cases ys) auto

lemma sort_key_eq_Nil: "(sort_key f xs = []) = (xs = [])"
  by (metis length_0_conv length_sort)

text \<open>The head of a stable sort is the first of the least elements.\<close>

lemma hd_sort_key_first_least:
  fixes f :: "'a \<Rightarrow> int"
  shows "m \<noteq> [] \<Longrightarrow>
    \<exists>i<length m. hd (sort_key f m) = m ! i \<and> (\<forall>j<length m. f (m ! i) \<le> f (m ! j)) \<and>
       (\<forall>j<i. f (m ! i) < f (m ! j))"
proof (induction m)
  case Nil
  then show ?case by simp
next
  case (Cons x xs)
  show ?case
  proof (cases "xs = []")
    case True
    then show ?thesis by simp
  next
    case False
    with Cons.IH obtain i where i: "i < length xs" "hd (sort_key f xs) = xs ! i"
      "\<forall>j<length xs. f (xs ! i) \<le> f (xs ! j)" "\<forall>j<i. f (xs ! i) < f (xs ! j)"
      by blast
    have hd: "hd (sort_key f (x # xs)) = (if f x \<le> f (xs ! i) then x else xs ! i)"
      using False i(2) by (simp add: hd_insort_key sort_key_eq_Nil)
    show ?thesis
    proof (cases "f x \<le> f (xs ! i)")
      case True
      have "\<forall>j<length (x # xs). f ((x # xs) ! 0) \<le> f ((x # xs) ! j)"
      proof (intro allI impI)
        fix j assume "j < length (x # xs)"
        then show "f ((x # xs) ! 0) \<le> f ((x # xs) ! j)"
          using True i(3) by (cases j) (auto intro: order_trans)
      qed
      with True hd show ?thesis
        by (intro exI [of _ 0]) simp
    next
      case False
      have a: "\<forall>j<length (x # xs). f ((x # xs) ! Suc i) \<le> f ((x # xs) ! j)"
      proof (intro allI impI)
        fix j assume "j < length (x # xs)"
        then show "f ((x # xs) ! Suc i) \<le> f ((x # xs) ! j)"
          using False i(3) by (cases j) auto
      qed
      have b: "\<forall>j<Suc i. f ((x # xs) ! Suc i) < f ((x # xs) ! j)"
      proof (intro allI impI)
        fix j assume "j < Suc i"
        then show "f ((x # xs) ! Suc i) < f ((x # xs) ! j)"
          using False i(4) by (cases j) auto
      qed
      from False hd a b i(1) show ?thesis
        by (intro exI [of _ "Suc i"]) simp
    qed
  qed
qed

lemma beatStep_Nil:
  "beatStep scs t [] =
   (case sort_key (\<lambda>s. - int (length (dialogue_lines s))) (matchingScenes scs (snd t)) of
      [] \<Rightarrow> []
    | a # _ \<Rightarrow>
        [\<lparr>beat_type = fst t, page_number = page_start a, beat_scene_number = scene_number a,
          beat_location = location a,
          confidence = (if 1 < length (matchingScenes scs (snd t)) then 7 / 10 else 5 / 10)\<rparr>])"
  by (cases "matchingScenes scs (snd t)") (simp_all add: beatStep_def Let_def split: list.splits)

lemma beat_type_beatStep: "b \<in> set (beatStep scs t []) \<Longrightarrow> beat_type b = fst t"
  by (auto simp add: beatStep_Nil split: list.splits)

lemma filter_beatStep_same:
  "filter (\<lambda>b. beat_type b = fst t) (beatStep scs t []) = beatStep scs t []"
  by (simp add: filter_id_conv beat_type_beatStep)

lemma filter_beatStep_other:
  "fst t \<noteq> n \<Longrightarrow> filter (\<lambda>b. beat_type b = n) (beatStep scs t []) = []"
  by (auto simp add: filter_empty_conv dest: beat_type_beatStep)

lemma filter_concat_beatStep:
  "distinct (map fst ts) \<Longrightarrow> t \<in> set ts \<Longrightarrow>
   filter (\<lambda>b. beat_type b = fst t) (concat (map (\<lambda>t. beatStep scs t []) ts)) =
   beatStep scs t []"
proof (induction ts)
  case Nil
  then show ?case by simp
next
  case (Cons u ts)
  show ?case
  proof (cases "t = u")
    case True
    from Cons.prems have "fst u \<notin> set (map fst ts)" by simp
    then have "\<forall>v\<in>set ts. fst v \<noteq> fst u" by (metis imageI set_map)
    then have "filter (\<lambda>b. beat_type b = fst u) (concat (map (\<lambda>t. beatStep scs t []) ts)) = []"
      by (induction ts) (simp_all add: filter_beatStep_other)
    with True show ?thesis by (simp add: filter_beatStep_same)
  next
    case False
    with Cons.prems have "t \<in> set ts" "fst u \<noteq> fst t" by force+
    with Cons show ?thesis by (simp add: filter_beatStep_other)
  qed
qed

lemma distinct_beatTemplates: "distinct (map fst beatTemplates)"
  by (simp add: beatTemplates_def js_def)

lemma beats_of_template:
  "(n, lo, hi) \<in> set beatTemplates \<Longrightarrow>
   filter (\<lambda>b. beat_type b = n) (identifyBeats scs text) = beatStep scs (n, lo, hi) []"
  using filter_concat_beatStep [OF distinct_beatTemplates, of "(n, lo, hi)" scs]
  by (simp add: identifyBeats_concat)

text \<open>
  C6. For a template of the catalogue, let \<open>m\<close> be the scenes whose \<open>page_start\<close> is in its
  window, in the order of the scan. If \<open>m\<close> is empty the result has no beat of the
  template. Otherwise it has exactly one: its anchor is a scene of \<open>m\<close> with the most
  dialogue lines, the first of them in \<open>m\<close>, and its confidence is 0.7 when \<open>m\<close> has more
  than one scene and 0.5 when it has one.
\<close>

theorem identifyBeats_anchor:
  assumes t: "(n, lo, hi) \<in> set beatTemplates"
    and m: "m = filter (\<lambda>s. lo \<le> page_start s \<and> page_start s \<le> hi) scs"
  shows "(m = [] \<longrightarrow> filter (\<lambda>b. beat_type b = n) (identifyBeats scs text) = []) \<and>
    (m \<noteq> [] \<longrightarrow>
      (\<exists>i<length m.
         (\<forall>j<length m. length (dialogue_lines (m ! j)) \<le> length (dialogue_lines (m ! i))) \<and>
         (\<forall>j<i. length (dialogue_lines (m ! j)) < length (dialogue_lines (m ! i))) \<and>
         filter (\<lambda>b. beat_type b = n) (identifyBeats scs text) =
           [\<lparr>beat_type = n, page_number = page_start (m ! i),
             beat_scene_number = scene_number (m ! i), beat_location = location (m ! i),
             confidence = (if 1 < length m then 7 / 10 else 5 / 10)\<rparr>]))"
proof (intro conjI impI)
  assume "m = []"
  with m show "filter (\<lambda>b. beat_type b = n) (identifyBeats scs text) = []"
    by (simp add: beats_of_template [OF t] beatStep_def matchingScenes_def)
next
  assume ne: "m \<noteq> []"
  let ?f = "\<lambda>s. - int (length (dialogue_lines s))"
  from hd_sort_key_first_least [OF ne, of ?f]
  obtain i where i: "i < length m" "hd (sort_key ?f m) = m ! i"
    "\<forall>j<length m. ?f (m ! i) \<le> ?f (m ! j)" "\<forall>j<i. ?f (m ! i) < ?f (m ! j)"
    by blast
  from ne obtain a as where s: "sort_key ?f m = a # as"
    by (cases "sort_key ?f m") (simp_all add: sort_key_eq_Nil)
  with i(2) have a: "a = m ! i" by simp
  have "filter (\<lambda>b. beat_type b = n) (identifyBeats scs text) =
      [\<lparr>beat_type = n, page_number = page_start (m ! i),
        beat_scene_number = scene_number (m ! i), beat_location = location (m ! i),
        confidence = (if 1 < length m then 7 / 10 else 5 / 10)\<rparr>]"
    using ne s a m
    by (simp add: beats_of_template [OF t] beatStep_def matchingScenes_def Let_def)
  with i(1,3,4) show "\<exists>i<length m.
         (\<forall>j<length m. length (dialogue_lines (m ! j)) \<le> length (dialogue_lines (m ! i))) \<and>
         (\<forall>j<i. length (dialogue_lines (m ! j)) < length (dialogue_lines (m ! i))) \<and>
         filter (\<lambda>b. beat_type b = n) (identifyBeats scs text) =
           [\<lparr>beat_type = n, page_number = page_start (m ! i),
             beat_scene_number = scene_number (m ! i), beat_location = location (m ! i),
             confidence = (if 1 < length m then 7 / 10 else 5 / 10)\<rparr>]"
    by (intro exI [of _ i]) simp
qed

theorem identifyBeats_anchor_witness:
  "(js ''Opening Image'', 1, 3) \<in> set beatTemplates \<and>
   filter (\<lambda>s. 1 \<le> page_start s \<and> page_start s \<le> 3) tieScenes =
     [exampleScene 1 1 1, exampleScene 2 2 2, exampleScene 3 3 2] \<and>
   filter (\<lambda>b. beat_type b = js ''Opening Image'') (identifyBeats tieScenes sampleText) =
     [\<lparr>beat_type = js ''Opening Image'', page_number = 2, beat_scene_number = 2,
       beat_location = js ''ROOM'', confidence = 7 / 10\<rparr>] \<and>
   (js ''Midpoint'', 55, 65) \<in> set beatTemplates \<and>
   filter (\<lambda>s. 55 \<le> page_start s \<and> page_start s \<le> 65) tieScenes = [] \<and>
   filter (\<lambda>b. beat_type b = js ''Midpoint'') (identifyBeats tieScenes sampleText) = []"
proof -
  let ?m = "[exampleScene 1 1 1, exampleScene 2 2 2, exampleScene 3 3 2]"
  have t1: "(js ''Opening Image'', 1, 3) \<in> set beatTemplates"
    by (simp add: beatTemplates_def)
  have m1: "?m = filter (\<lambda>s. 1 \<le> page_start s \<and> page_start s \<le> 3) tieScenes"
    by (simp add: tieScenes_def exampleScene_def)
  have t2: "(js ''Midpoint'', 55, 65) \<in> set beatTemplates"
    by (simp add: beatTemplates_def)
  have m2: "[] = filter (\<lambda>s. 55 \<le> page_start s \<and> page_start s \<le> 65) tieScenes"
    by (simp add: tieScenes_def exampleScene_def)
  have ne: "?m \<noteq> []" by simp
  from identifyBeats_anchor [OF t1 m1, of sampleText, THEN conjunct2, THEN mp, OF ne]
  obtain i where i: "i < length ?m"
    "\<forall>j<length ?m. length (dialogue_lines (?m ! j)) \<le> length (dialogue_lines (?m ! i))"
    "\<forall>j<i. length (dialogue_lines (?m ! j)) < length (dialogue_lines (?m ! i))"
    "filter (\<lambda>b. beat_type b = js ''Opening Image'') (identifyBeats tieScenes sampleText) =
       [\<lparr>beat_type = js ''Opening Image'', page_number = page_start (?m ! i),
         beat_scene_number = scene_number (?m ! i), beat_location = location (?m ! i),
         confidence = (if 1 < length ?m then 7 / 10 else 5 / 10)\<rparr>]"
    by blast
  from i(1) have "i = 0 \<or> i = 1 \<or> i = 2" by auto
  moreover have "i \<noteq> 0"
  proof
    assume "i = 0"
    with i(2) [rule_format, of 1] show False by (simp add: exampleScene_def)
  qed
  moreover have "i \<noteq> 2"
  proof
    assume "i = 2"
    with i(3) [rule_format, of 1] show False by (simp add: exampleScene_def)
  qed
  ultimately have "i = 1" by blast
  with i(4) have b1: "filter (\<lambda>b. beat_type b = js ''Opening Image'')
      (identifyBeats tieScenes sampleText) =
     [\<lparr>beat_type = js ''Opening Image'', page_number = 2, beat_scene_number = 2,
       beat_location = js ''ROOM'', confidence = 7 / 10\<rparr>]"
    by (simp add: exampleScene_def)
  from identifyBeats_anchor [OF t2 m2, of sampleText]
  have b2: "filter (\<lambda>b. beat_type b = js ''Midpoint'') (identifyBeats tieScenes sampleText) = []"
    by simp
  from t1 m1 [symmetric] b1 t2 m2 [symmetric] b2 show ?thesis by (intro conjI)
qed

lemma split_replicate: "split c (replicate n c) = replicate (Suc n) []"
  by (induction n) simp_all

lemma pagesBefore_alt: "pagesBefore i = i div 60 + (if i mod 60 = 0 then 0 else 1)"
proof -
  have "i + 59 = 60 * (i div 60) + (i mod 60 + 59)" by simp
  then have "(i + 59) div 60 = i div 60 + (i mod 60 + 59) div 60"
    by (metis div_mult_self4 zero_neq_numeral)
  moreover have "(i mod 60 + 59) div 60 = (if i mod 60 = 0 then 0 else 1)"
  proof (cases "i mod 60 = 0")
    case True
    then show ?thesis by simp
  next
    case False
    have "i mod 60 < 60" by simp
    with False have "(i mod 60 + 59) div 60 = 1"
      by (intro div_nat_eqI) simp_all
    with False show ?thesis by simp
  qed
  ultimately show ?thesis by (simp add: pagesBefore_def)
qed

lemma pagesBefore_Suc:
  "pagesBefore (Suc i) = pagesBefore i + (if i mod 60 = 0 then 1 else 0)"
proof -
  have "pagesBefore (Suc i) = (i + 60) div 60" by (simp add: pagesBefore_def)
  also have "\<dots> = i div 60 + 1" by simp
  finally show ?thesis by (simp add: pagesBefore_alt [of i])
qed

lemma split_replicate_append: "split c (replicate n c @ s) = replicate n [] @ split c s"
  by (induction n) simp_all

lemma split_line: "c \<notin> set l \<Longrightarrow> split c (l @ c # r) = l # split c r"
  by (induction l) auto

lemma split_paddedScript:
  "split 10 (paddedScript a (Suc b)) =
   replicate a [] @ js ''INT. ROOM - DAY'' # replicate (Suc b) []"
proof -
  have "10 \<notin> set (js ''INT. ROOM - DAY'')" by (simp add: js_def)
  then have "split 10 (js ''INT. ROOM - DAY'' @ 10 # replicate b 10) =
      js ''INT. ROOM - DAY'' # split 10 (replicate b 10)"
    by (rule split_line)
  then show ?thesis
    by (simp add: paddedScript_def split_replicate_append split_replicate)
qed

lemma trim_Nil: "trim [] = []"
  by (simp add: trim_def)

lemma scanLine_blank:
  "lines ! i = [] \<Longrightarrow>
   scanLine lines i st =
   st\<lparr>currentScene := map_option (\<lambda>cs. cs\<lparr>content := content cs @ [10]\<rparr>) (currentScene st),
      pageCount := pageCount st + (if i mod 60 = 0 then 1 else 0)\<rparr>"
  by (cases "currentScene st")
    (simp_all add: scanLine_def Let_def trim_Nil isSceneHeader_def startsWith_i_def js_def
      addContent_def isCue_def)

lemma fold_blank:
  assumes blank: "\<And>i. lo \<le> i \<Longrightarrow> i < lo + k \<Longrightarrow> lines ! i = []"
    and pc: "pageCount st = pagesBefore lo"
  shows "fold (scanLine lines) [lo..<lo + k] st =
   st\<lparr>currentScene :=
        map_option (\<lambda>cs. cs\<lparr>content := content cs @ replicate k 10\<rparr>) (currentScene st),
      pageCount := pagesBefore (lo + k)\<rparr>"
  using blank
proof (induction k)
  case 0
  with pc show ?case by (cases "currentScene st") simp_all
next
  case (Suc k)
  have b: "lines ! (lo + k) = []" by (rule Suc.prems) simp_all
  have ih: "fold (scanLine lines) [lo..<lo + k] st =
     st\<lparr>currentScene :=
          map_option (\<lambda>cs. cs\<lparr>content := content cs @ replicate k 10\<rparr>) (currentScene st),
        pageCount := pagesBefore (lo + k)\<rparr>"
    by (rule Suc.IH) (simp add: Suc.prems)
  have rp: "replicate k (10::nat) @ [10] = 10 # replicate k 10"
    by (simp add: replicate_append_same)
  show ?case
    by (cases "currentScene st")
      (simp_all add: ih scanLine_blank [OF b] rp pagesBefore_Suc [symmetric])
qed


lemma matchHeader_room:
  "matchHeader (js ''INT. ROOM - DAY'') = Some (js ''INT.'', js ''ROOM'', js ''DAY'')"
  by (simp add: str_defs)

lemma scanLine_header:
  assumes l: "lines ! a = js ''INT. ROOM - DAY''"
    and p: "0 < a \<Longrightarrow> lines ! (a - 1) = []"
  shows "scanLine lines a \<lparr>scenes = [], currentScene = None, sceneNumber = 0, pageCount = pc\<rparr> =
    \<lparr>scenes = [],
     currentScene = Some
       \<lparr>scene_number = 1, scene_type = js ''INT.'', location = js ''ROOM'', time = js ''DAY'',
        page_start = pc, page_end = None, content = js ''INT. ROOM - DAY'' @ [10],
        dialogue_lines = [], action_lines = [js ''INT. ROOM - DAY''],
        characters_present = [], dialogue_ratio = None\<rparr>,
     sceneNumber = 1,
     pageCount = pc + (if a mod 60 = 0 then 1 else 0)\<rparr>"
proof -
  have t: "trim (js ''INT. ROOM - DAY'') = js ''INT. ROOM - DAY''"
    by (simp add: str_defs)
  have h: "isSceneHeader (js ''INT. ROOM - DAY'')"
    by (simp add: str_defs)
  have c: "\<not> isCue (js ''INT. ROOM - DAY'')"
    by (simp add: str_defs)
  have n: "newScene (Suc 0) pc (js ''INT. ROOM - DAY'') =
      \<lparr>scene_number = Suc 0, scene_type = js ''INT.'', location = js ''ROOM'', time = js ''DAY'',
       page_start = pc, page_end = None, content = [], dialogue_lines = [], action_lines = [],
       characters_present = [], dialogue_ratio = None\<rparr>"
    by (simp add: newScene_def matchHeader_room Let_def) (simp add: str_defs)
  have q: "\<not> (0 < a \<and> isCue (trim (lines ! (a - 1))))"
    using p by (auto simp add: trim_Nil isCue_def)
  have len: "0 < length (js ''INT. ROOM - DAY'')" by (simp add: js_def)
  have ac: "addContent lines a (js ''INT. ROOM - DAY'')
       \<lparr>scene_number = Suc 0, scene_type = js ''INT.'', location = js ''ROOM'', time = js ''DAY'',
        page_start = pc, page_end = None, content = [], dialogue_lines = [], action_lines = [],
        characters_present = [], dialogue_ratio = None\<rparr> =
      \<lparr>scene_number = Suc 0, scene_type = js ''INT.'', location = js ''ROOM'', time = js ''DAY'',
        page_start = pc, page_end = None, content = js ''INT. ROOM - DAY'' @ [10],
        dialogue_lines = [], action_lines = [js ''INT. ROOM - DAY''],
        characters_present = [], dialogue_ratio = None\<rparr>"
    using c q len by (simp add: addContent_def Let_def)
  show ?thesis
    by (simp add: scanLine_def l t h n ac saveScene_def Let_def)
qed

lemma extractScenes_paddedScript:
  "extractScenes (paddedScript a (Suc b)) = [paddedScene a b]"
proof -
  let ?hdr = "js ''INT. ROOM - DAY''"
  let ?L = "replicate a [] @ ?hdr # replicate (Suc b) []"
  have len: "length ?L = a + Suc (Suc b)" by simp
  have upt: "[0..<a + Suc (Suc b)] = [0..<0 + a] @ a # [Suc a..<Suc a + Suc b]"
    by (metis add.left_neutral add_Suc_right le_add1 upt_add_eq_append upt_conv_Cons
        less_add_Suc1 add_Suc)
  have pre: "\<And>i. 0 \<le> i \<Longrightarrow> i < 0 + a \<Longrightarrow> ?L ! i = []"
    by (simp add: nth_append)
  have post: "\<And>i. Suc a \<le> i \<Longrightarrow> i < Suc a + Suc b \<Longrightarrow> ?L ! i = []"
    by (auto simp add: nth_append nth_Cons split: nat.splits)
  have at: "?L ! a = ?hdr"
    by (simp add: nth_append)
  have before: "0 < a \<Longrightarrow> ?L ! (a - 1) = []"
    by (simp add: nth_append)
  have s1: "fold (scanLine ?L) [0..<0 + a] scanInit =
      \<lparr>scenes = [], currentScene = None, sceneNumber = 0, pageCount = pagesBefore a\<rparr>"
    using fold_blank [of 0 a ?L scanInit, OF pre]
    by (simp add: scanInit_def pagesBefore_def)
  have s2: "scanLine ?L a (fold (scanLine ?L) [0..<0 + a] scanInit) =
      \<lparr>scenes = [],
       currentScene = Some
         \<lparr>scene_number = 1, scene_type = js ''INT.'', location = js ''ROOM'', time = js ''DAY'',
          page_start = pagesBefore a, page_end = None, content = ?hdr @ [10],
          dialogue_lines = [], action_lines = [?hdr],
          characters_present = [], dialogue_ratio = None\<rparr>,
       sceneNumber = 1,
       pageCount = pagesBefore (Suc a)\<rparr>"
    unfolding s1 pagesBefore_Suc [of a]
    by (rule scanLine_header [OF at before])
  have s3: "fold (scanLine ?L) [Suc a..<Suc a + Suc b]
        (scanLine ?L a (fold (scanLine ?L) [0..<0 + a] scanInit)) =
      \<lparr>scenes = [],
       currentScene = Some
         \<lparr>scene_number = 1, scene_type = js ''INT.'', location = js ''ROOM'', time = js ''DAY'',
          page_start = pagesBefore a, page_end = None,
          content = ?hdr @ 10 # replicate (Suc b) 10,
          dialogue_lines = [], action_lines = [?hdr],
          characters_present = [], dialogue_ratio = None\<rparr>,
       sceneNumber = 1,
       pageCount = pagesBefore (Suc a + Suc b)\<rparr>"
    unfolding s2
    by (subst fold_blank [OF post]) simp_all
  have "scanLines ?L =
      \<lparr>scenes = [],
       currentScene = Some
         \<lparr>scene_number = 1, scene_type = js ''INT.'', location = js ''ROOM'', time = js ''DAY'',
          page_start = pagesBefore a, page_end = None,
          content = ?hdr @ 10 # replicate (Suc b) 10,
          dialogue_lines = [], action_lines = [?hdr],
          characters_present = [], dialogue_ratio = None\<rparr>,
       sceneNumber = 1,
       pageCount = pagesBefore (Suc a + Suc b)\<rparr>"
    unfolding scanLines_def len upt by (simp only: fold_append fold_simps comp_apply s3)
  then show ?thesis
    by (simp add: extractScenes_def split_paddedScript saveScene_def setRatio_def
        paddedScene_def)
qed

lemma longScript_Suc: "longScript = paddedScript 3541 (Suc 8457)"
proof -
  have "(8458::nat) = Suc 8457" by simp
  then show ?thesis by (simp only: longScript_def)
qed

lemma extractScenes_longScript: "extractScenes longScript = [paddedScene 3541 8457]"
  unfolding longScript_Suc by (rule extractScenes_paddedScript)

lemma totalPagesOf_longScript: "totalPagesOf longScript = 200"
proof -
  have "length (split 10 longScript) = 12000"
    unfolding longScript_Suc split_paddedScript by simp
  then show ?thesis by (simp add: totalPagesOf_def)
qed

lemma beats_longScript:
  "p_beats (parseText longScript) =
     [\<lparr>beat_type = js ''Midpoint'', page_number = 60, beat_scene_number = 1,
       beat_location = js ''ROOM'', confidence = 5 / 10\<rparr>]"
  by (simp add: parseText_def Let_def extractScenes_longScript identifyBeats_def beatStep_def
      matchingScenes_def beatTemplates_def paddedScene_def pagesBefore_def)

text \<open>
  C2 fails as stated. In a script of 12000 lines, 200 pages, whose only scene starts on
  page 60, the parser reports the Midpoint on page 60, which is 30 percent of the length
  and not between 55 and 65 percent of it (pages 110 to 130).
\<close>

theorem identifyBeats_window_not_scaled:
  "totalPagesOf longScript = 200 \<and>
   p_beats (parseText longScript) =
     [\<lparr>beat_type = js ''Midpoint'', page_number = 60, beat_scene_number = 1,
       beat_location = js ''ROOM'', confidence = 5 / 10\<rparr>] \<and>
   \<not> ((55 / 100 :: rat) * 200 \<le> 60 \<and> (60 :: rat) \<le> 65 / 100 * 200)"
  by (simp add: totalPagesOf_longScript beats_longScript)

lemma beatStep_in_window:
  "b \<in> set (beatStep scs (n, lo, hi) []) \<Longrightarrow>
   beat_type b = n \<and> lo \<le> page_number b \<and> page_number b \<le> hi"
proof -
  let ?m = "matchingScenes scs (lo, hi)"
  let ?f = "\<lambda>s. - int (length (dialogue_lines s))"
  assume b: "b \<in> set (beatStep scs (n, lo, hi) [])"
  show ?thesis
  proof (cases "sort_key ?f ?m")
    case Nil
    with b show ?thesis by (simp add: beatStep_Nil)
  next
    case (Cons a as)
    with b have p: "beat_type b = n" "page_number b = page_start a"
      by (simp_all add: beatStep_Nil)
    have "a \<in> set (sort_key ?f ?m)" by (simp add: Cons)
    then have "a \<in> set ?m" by simp
    then have "lo \<le> page_start a \<and> page_start a \<le> hi"
      by (simp add: matchingScenes_def)
    with p show ?thesis by simp
  qed
qed

text \<open>
  C2, amended. The window of each of the seven templates is a fixed range of absolute
  pages (1-3, 10-15, 25-30, 55-65, 75-85, 90-100, 105-115), the same for every script:
  the result of \<open>identifyBeats\<close> does not depend on the text, whose page count it
  computes and does not use, and the page of every beat lies in the fixed range of the
  template of its type.
\<close>

theorem identifyBeats_fixed_windows:
  "identifyBeats scs text = identifyBeats scs text' \<and>
   map snd beatTemplates =
     [(1, 3), (10, 15), (25, 30), (55, 65), (75, 85), (90, 100), (105, 115)] \<and>
   (\<forall>b\<in>set (identifyBeats scs text).
      \<exists>lo hi. (beat_type b, lo, hi) \<in> set beatTemplates \<and>
        lo \<le> page_number b \<and> page_number b \<le> hi)"
proof (intro conjI ballI)
  show "identifyBeats scs text = identifyBeats scs text'"
    by (simp add: identifyBeats_def Let_def)
  show "map snd beatTemplates =
     [(1, 3), (10, 15), (25, 30), (55, 65), (75, 85), (90, 100), (105, 115)]"
    by (simp add: beatTemplates_def)
  fix b assume "b \<in> set (identifyBeats scs text)"
  then obtain t where t: "t \<in> set beatTemplates" "b \<in> set (beatStep scs t [])"
    by (auto simp add: identifyBeats_concat)
  obtain n lo hi where "t = (n, lo, hi)" by (cases t)
  with t beatStep_in_window [of b scs n lo hi]
  show "\<exists>lo hi. (beat_type b, lo, hi) \<in> set beatTemplates \<and>
        lo \<le> page_number b \<and> page_number b \<le> hi"
    by auto
qed

theorem identifyBeats_fixed_windows_witness:
  "identifyBeats (extractScenes longScript) longScript =
     identifyBeats (extractScenes longScript) sampleText \<and>
   map snd beatTemplates =
     [(1, 3), (10, 15), (25, 30), (55, 65), (75, 85), (90, 100), (105, 115)] \<and>
   (\<exists>b lo hi. b \<in> set (identifyBeats (extractScenes longScript) longScript) \<and>
      (beat_type b, lo, hi) \<in> set beatTemplates \<and> lo \<le> page_number b \<and> page_number b \<le> hi)"
proof -
  have "\<lparr>beat_type = js ''Midpoint'', page_number = 60, beat_scene_number = 1,
       beat_location = js ''ROOM'', confidence = 5 / 10\<rparr>
      \<in> set (identifyBeats (extractScenes longScript) longScript)"
    using beats_longScript by (simp add: parseText_def Let_def)
  with identifyBeats_fixed_windows [of "extractScenes longScript" longScript sampleText]
  show ?thesis by blast
qed

section \<open>The outline generator: validation, prediction and defaults\<close>

lemma getBeatTiming_emptyDb:
  "getBeatTiming emptyDb (findSimilarScripts emptyDb genre 10) = Inr getDefaultBeats"
  by (simp add: getBeatTiming_def findSimilarScripts_def emptyDb_def)

text \<open>
  C1 fails as stated. With an empty premise and the genre Action, with a premise and an
  empty genre, and with either argument absent, \<open>generateOutline\<close> resolves with an
  outline that carries the arguments as they are; it does not reject.
\<close>

theorem generateOutline_empty_resolves:
  "(case fst (generateOutline emptyDb newGenerator (Some []) (Some (js ''Action'')) None) of
      Resolved ol \<Rightarrow> o_premise ol = Some [] \<and> o_genre ol = Some (js ''Action'')
    | Rejected e \<Rightarrow> False) \<and>
   (case fst (generateOutline emptyDb newGenerator (Some (js ''valid premise'')) (Some []) None) of
      Resolved ol \<Rightarrow> o_premise ol = Some (js ''valid premise'') \<and> o_genre ol = Some []
    | Rejected e \<Rightarrow> False) \<and>
   (case fst (generateOutline emptyDb newGenerator None (Some (js ''Action'')) None) of
      Resolved ol \<Rightarrow> o_premise ol = None \<and> o_genre ol = Some (js ''Action'')
    | Rejected e \<Rightarrow> False) \<and>
   (case fst (generateOutline emptyDb newGenerator (Some (js ''valid premise'')) None None) of
      Resolved ol \<Rightarrow> o_premise ol = Some (js ''valid premise'') \<and> o_genre ol = None
    | Rejected e \<Rightarrow> False)"
  by (simp add: generateOutline_def Let_def getBeatTiming_emptyDb)

text \<open>The grouping of the story beats throws exactly when a row names a property that an
  object inherits.\<close>

lemma groupBeats_throws:
  "(groupBeats bs byType = Inl e) = (\<exists>b\<in>set bs. fst b \<in> set objectPrototypeKeys)"
proof (induction bs arbitrary: byType)
  case Nil
  then show ?case by simp
next
  case (Cons b bs)
  show ?case
  proof (cases "fst b \<in> set objectPrototypeKeys")
    case True
    then show ?thesis by (cases e) simp
  next
    case False
    with Cons show ?thesis by simp
  qed
qed

text \<open>\<open>generateOutline\<close> rejects exactly when \<open>getBeatTiming\<close> throws, whatever the premise
  and the target length are; and it does for a row of story beats named \<open>constructor\<close>.\<close>

lemma generateOutline_rejects:
  "(fst (generateOutline db g premise genre targetLength) = Rejected e) =
   (getBeatTiming db (findSimilarScripts db genre 10) = Inl e)"
  by (simp add: generateOutline_def Let_def split: sum.splits)

lemma findSimilarScripts_actionDb:
  "findSimilarScripts actionDb (Some (js ''Action'')) 10 = threeComparables"
  "findSimilarScripts constructorDb (Some (js ''Action'')) 10 = threeComparables"
  by (simp_all add: findSimilarScripts_def actionDb_def constructorDb_def threeComparables_def)

lemma groupBeats_actionBeats:
  "groupBeats actionBeats [] = Inr [(js ''Midpoint'', [58, 61]), (js ''Climax'', [97])]"
  by (simp add: actionBeats_def objectPrototypeKeys_def pushPage_def js_def)

lemma comparables_nonempty: "threeComparables \<noteq> []" "actionBeats \<noteq> []"
  by (simp_all add: threeComparables_def actionBeats_def)

lemma getBeatTiming_actionDb:
  "getBeatTiming actionDb (findSimilarScripts actionDb (Some (js ''Action'')) 10) =
   Inr (averagedBeats [(js ''Midpoint'', [58, 61]), (js ''Climax'', [97])])"
proof -
  have s: "select_story_beats actionDb (map script_id threeComparables) = Some actionBeats"
    by (simp add: actionDb_def)
  show ?thesis
    by (simp add: findSimilarScripts_actionDb getBeatTiming_def s comparables_nonempty
        groupBeats_actionBeats)
qed

lemma getBeatTiming_constructorDb:
  "getBeatTiming constructorDb (findSimilarScripts constructorDb (Some (js ''Action'')) 10) =
   Inl TypeError"
proof -
  have "\<exists>b\<in>set (actionBeats @ [(js ''constructor'', 5)]). fst b \<in> set objectPrototypeKeys"
    by (simp add: objectPrototypeKeys_def)
  then have g: "groupBeats (actionBeats @ [(js ''constructor'', 5)]) [] = Inl TypeError"
    by (simp only: groupBeats_throws)
  have s: "select_story_beats constructorDb (map script_id threeComparables) =
      Some (actionBeats @ [(js ''constructor'', 5)])"
    by (simp add: constructorDb_def)
  show ?thesis
    by (simp add: findSimilarScripts_actionDb getBeatTiming_def s comparables_nonempty g)
qed

lemma generateOutline_constructor_rejects:
  "fst (generateOutline constructorDb newGenerator (Some (js ''valid premise''))
     (Some (js ''Action'')) None) = Rejected TypeError"
  by (simp only: generateOutline_rejects getBeatTiming_constructorDb)

text \<open>
  C1, amended. \<open>generateOutline\<close> checks neither argument. For every premise and genre,
  absent and empty ones too: whenever the beat timing of the comparables is computed
  (\<open>getBeatTiming\<close> does not throw), the call resolves with an outline whose \<open>premise\<close> and
  \<open>genre\<close> are the arguments as they were given, and the generator has its patterns loaded.
\<close>

theorem generateOutline_no_validation:
  assumes "getBeatTiming db (findSimilarScripts db genre 10) = Inr beats"
  shows "\<exists>ol. generateOutline db g premise genre targetLength =
       (Resolved ol, if patterns g = None then loadPatterns db g else g) \<and>
     o_premise ol = premise \<and> o_genre ol = genre"
  using assms by (simp add: generateOutline_def Let_def)

theorem generateOutline_no_validation_witness:
  "getBeatTiming actionDb (findSimilarScripts actionDb (Some (js ''Action'')) 10) =
     Inr (averagedBeats [(js ''Midpoint'', [58, 61]), (js ''Climax'', [97])]) \<and>
   (\<exists>ol. generateOutline actionDb newGenerator (Some []) (Some (js ''Action'')) None =
       (Resolved ol, \<lparr>patterns = Some []\<rparr>) \<and>
     o_premise ol = Some [] \<and> o_genre ol = Some (js ''Action'')) \<and>
   getBeatTiming emptyDb (findSimilarScripts emptyDb (Some []) 10) = Inr getDefaultBeats \<and>
   (\<exists>ol. generateOutline emptyDb newGenerator (Some (js ''valid premise'')) (Some []) None =
       (Resolved ol, \<lparr>patterns = Some []\<rparr>) \<and>
     o_premise ol = Some (js ''valid premise'') \<and> o_genre ol = Some [])"
proof -
  have l1: "(if patterns newGenerator = None then loadPatterns actionDb newGenerator
             else newGenerator) = \<lparr>patterns = Some []\<rparr>"
    by (simp add: newGenerator_def loadPatterns_def actionDb_def)
  have l2: "(if patterns newGenerator = None then loadPatterns emptyDb newGenerator
             else newGenerator) = \<lparr>patterns = Some []\<rparr>"
    by (simp add: newGenerator_def loadPatterns_def emptyDb_def)
  from generateOutline_no_validation [OF getBeatTiming_actionDb, of newGenerator "Some []" None]
  have a: "\<exists>ol. generateOutline actionDb newGenerator (Some []) (Some (js ''Action'')) None =
       (Resolved ol, \<lparr>patterns = Some []\<rparr>) \<and>
     o_premise ol = Some [] \<and> o_genre ol = Some (js ''Action'')"
    by (simp only: l1)
  from generateOutline_no_validation [OF getBeatTiming_emptyDb [of "Some []"], of newGenerator
      "Some (js ''valid premise'')" None]
  have b: "\<exists>ol. generateOutline emptyDb newGenerator (Some (js ''valid premise'')) (Some []) None =
       (Resolved ol, \<lparr>patterns = Some []\<rparr>) \<and>
     o_premise ol = Some (js ''valid premise'') \<and> o_genre ol = Some []"
    by (simp only: l2)
  from getBeatTiming_actionDb a getBeatTiming_emptyDb [of "Some []"] b
  show ?thesis by (intro conjI)
qed

lemma rawProbability_three:
  "map imdb_rating ss = [8, 75 / 10, 74 / 10] \<Longrightarrow> rawProbability ss = 229 / 300"
proof -
  assume a: "map imdb_rating ss = [8, 75 / 10, 74 / 10]"
  then have "length (map imdb_rating ss) = 3" by simp
  then have "length ss = 3" by simp
  with a show ?thesis by (simp add: rawProbability_def avgRating_def)
qed

text \<open>
  C4 fails as stated. For the ratings 8.0, 7.5 and 7.4 the probability before rounding is
  229/300 = 0.7633..., which is less than 0.764.
\<close>

theorem rawProbability_not_0764:
  "map imdb_rating threeComparables = [8, 75 / 10, 74 / 10] \<and>
   rawProbability threeComparables = 229 / 300 \<and>
   \<not> (764 / 1000 \<le> rawProbability threeComparables)"
proof -
  have m: "map imdb_rating threeComparables = [8, 75 / 10, 74 / 10]"
    by (simp add: threeComparables_def)
  from rawProbability_three [OF m] m show ?thesis by simp
qed

text \<open>
  C4, amended. For comparables with the ratings 8.0, 7.5 and 7.4, the probability is
  \<open>min(0.95, mean / 10)\<close> = 229/300 = 0.7633...; \<open>predictSuccess\<close> reports it rounded to
  two decimals, 0.76, and decides the confidence on the value before rounding, which is
  above 0.75: the confidence is high.
\<close>

theorem predictSuccess_three_ratings:
  assumes "map imdb_rating ss = [8, 75 / 10, 74 / 10]"
  shows "rawProbability ss = min (95 / 100) ((8 + 75 / 10 + 74 / 10) / 3 / 10) \<and>
    rawProbability ss = 229 / 300 \<and>
    probability (predictSuccess ss genre) = 76 / 100 \<and>
    probability (predictSuccess ss genre) = of_int (mathRound (rawProbability ss * 100)) / 100 \<and>
    75 / 100 < rawProbability ss \<and>
    pr_confidence (predictSuccess ss genre) =
      (if rawProbability ss > 75 / 100 then js ''high''
       else if rawProbability ss > 65 / 100 then js ''medium'' else js ''low'') \<and>
    pr_confidence (predictSuccess ss genre) = js ''high''"
proof -
  from assms have "length (map imdb_rating ss) = 3" by simp
  then have l: "length ss = 3" by simp
  have r: "rawProbability ss = 229 / 300" by (rule rawProbability_three [OF assms])
  have f: "min (95 / 100) ((8 + 75 / 10 + 74 / 10) / 3 / 10) = (229 / 300 :: rat)" by simp
  have p: "probability (predictSuccess ss genre) =
      of_int (mathRound (rawProbability ss * 100)) / 100"
    using l by (simp add: predictSuccess_def Let_def)
  have c: "pr_confidence (predictSuccess ss genre) =
      (if rawProbability ss > 75 / 100 then js ''high''
       else if rawProbability ss > 65 / 100 then js ''medium'' else js ''low'')"
    using l by (simp add: predictSuccess_def Let_def)
  have m: "mathRound (rawProbability ss * 100) = 76"
    unfolding r by (simp add: mathRound_def floor_eq_iff)
  have g: "75 / 100 < rawProbability ss" unfolding r by simp
  from p m have p2: "probability (predictSuccess ss genre) = 76 / 100" by simp
  from c g have c2: "pr_confidence (predictSuccess ss genre) = js ''high''" by simp
  show ?thesis
  proof (intro conjI)
    show "rawProbability ss = min (95 / 100) ((8 + 75 / 10 + 74 / 10) / 3 / 10)"
      by (simp only: r f)
    show "rawProbability ss = 229 / 300" by (rule r)
    show "probability (predictSuccess ss genre) = 76 / 100" by (rule p2)
    show "probability (predictSuccess ss genre) =
        of_int (mathRound (rawProbability ss * 100)) / 100" by (rule p)
    show "75 / 100 < rawProbability ss" by (rule g)
    show "pr_confidence (predictSuccess ss genre) =
      (if rawProbability ss > 75 / 100 then js ''high''
       else if rawProbability ss > 65 / 100 then js ''medium'' else js ''low'')" by (rule c)
    show "pr_confidence (predictSuccess ss genre) = js ''high''" by (rule c2)
  qed
qed

theorem predictSuccess_three_ratings_witness:
  "map imdb_rating threeComparables = [8, 75 / 10, 74 / 10] \<and>
   rawProbability threeComparables = 229 / 300 \<and>
   probability (predictSuccess threeComparables (Some (js ''Action''))) = 76 / 100 \<and>
   pr_confidence (predictSuccess threeComparables (Some (js ''Action''))) = js ''high''"
proof -
  have m: "map imdb_rating threeComparables = [8, 75 / 10, 74 / 10]"
    by (simp add: threeComparables_def)
  from predictSuccess_three_ratings [OF m, of "Some (js ''Action'')"] m show ?thesis by simp
qed

text \<open>
  C5 fails as stated. With no comparables and the target length 0 given by the caller,
  \<open>totalPages\<close> is 110 and not the target length: the source tests \<open>if (targetLength)\<close>,
  which is false for 0.
\<close>

theorem generateOutline_zero_target_keeps_110:
  "findSimilarScripts emptyDb (Some (js ''Action'')) 10 = [] \<and>
   (case fst (generateOutline emptyDb newGenerator (Some (js ''valid premise''))
               (Some (js ''Action'')) (Some 0)) of
      Resolved ol \<Rightarrow> totalPages (o_structure ol) = 110 \<and> totalPages (o_structure ol) \<noteq> 0
    | Rejected e \<Rightarrow> False)"
proof -
  have e: "findSimilarScripts emptyDb (Some (js ''Action'')) 10 = []"
    by (simp add: findSimilarScripts_def emptyDb_def)
  show ?thesis
    by (simp add: e generateOutline_def Let_def getBeatTiming_def calculateOptimalStructure_def
        overrideStructure_def)
qed

text \<open>
  C5, amended. When the query for comparables gives none, \<open>generateOutline\<close> resolves with
  an outline whose \<open>totalPages\<close> is 110, or the target length when the caller gave one that
  is not 0 (a target length of 0 keeps 110), and whose prediction has the probability 0.65,
  the confidence medium, the reasoning
  "Based on general patterns (no similar scripts in database)" and no comparables.
\<close>

theorem generateOutline_no_comparables:
  assumes "findSimilarScripts db genre 10 = []"
  shows "\<exists>ol. generateOutline db g premise genre targetLength =
       (Resolved ol, if patterns g = None then loadPatterns db g else g) \<and>
     totalPages (o_structure ol) =
       (case targetLength of None \<Rightarrow> 110 | Some t \<Rightarrow> if t = 0 then 110 else t) \<and>
     o_prediction ol =
       \<lparr>probability = 65 / 100, pr_confidence = js ''medium'',
        reasoning = js ''Based on general patterns (no similar scripts in database)'',
        comparables = None\<rparr>"
proof -
  from assms have b: "getBeatTiming db (findSimilarScripts db genre 10) = Inr getDefaultBeats"
    by (simp add: getBeatTiming_def)
  have t: "totalPages (overrideStructure targetLength (calculateOptimalStructure [])) =
      (case targetLength of None \<Rightarrow> 110 | Some t \<Rightarrow> if t = 0 then 110 else t)"
    by (simp add: calculateOptimalStructure_def overrideStructure_def split: option.splits)
  have p: "predictSuccess [] genre =
      \<lparr>probability = 65 / 100, pr_confidence = js ''medium'',
       reasoning = js ''Based on general patterns (no similar scripts in database)'',
       comparables = None\<rparr>"
    by (simp add: predictSuccess_def)
  from assms b t p show ?thesis
    by (simp add: generateOutline_def Let_def)
qed

theorem generateOutline_no_comparables_witness:
  "findSimilarScripts emptyDb (Some (js ''Action'')) 10 = [] \<and>
   (\<exists>ol g'. generateOutline emptyDb newGenerator (Some (js ''valid premise''))
        (Some (js ''Action'')) None = (Resolved ol, g') \<and>
      totalPages (o_structure ol) = 110 \<and>
      probability (o_prediction ol) = 65 / 100 \<and>
      pr_confidence (o_prediction ol) = js ''medium'') \<and>
   (\<exists>ol g'. generateOutline emptyDb newGenerator (Some (js ''valid premise''))
        (Some (js ''Action'')) (Some 90) = (Resolved ol, g') \<and>
      totalPages (o_structure ol) = 90 \<and>
      probability (o_prediction ol) = 65 / 100 \<and>
      pr_confidence (o_prediction ol) = js ''medium'')"
proof -
  have e: "findSimilarScripts emptyDb (Some (js ''Action'')) 10 = []"
    by (simp add: findSimilarScripts_def emptyDb_def)
  from generateOutline_no_comparables [OF e, of newGenerator "Some (js ''valid premise'')" None]
    generateOutline_no_comparables [OF e, of newGenerator "Some (js ''valid premise'')" "Some 90"] e
  show ?thesis by auto
qed

end
